theory Spec2Isabelle
  imports Complex_Main
begin

section \<open>Numbers, vectors and numpy indexing\<close>

text \<open>
  The arrays of the program hold floating-point numbers. The model takes the finite
  values as exact reals (rounding and overflow are not modelled) and keeps apart the two
  places where the program itself produces non-finite values: the parametric distances
  (\<open>+inf\<close> for a miss) and the points computed from them (\<open>inf\<close> and \<open>nan\<close> under
  the IEEE rules for sums and products). A 3-by-n array is the list of its n columns.
\<close>

type_synonym vec3 = "real \<times> real \<times> real"

datatype error = ValueError | KeyError | AttributeError | IndexError | LinAlgError

definition bind_err :: "error + 'a \<Rightarrow> ('a \<Rightarrow> error + 'b) \<Rightarrow> error + 'b" where
  "bind_err m f = (case m of Inl e \<Rightarrow> Inl e | Inr x \<Rightarrow> f x)"

text \<open>One integer index into an axis of length \<open>n\<close>: negative indices count from the
  end, anything outside \<open>-n \<le> i < n\<close> raises IndexError.\<close>

definition np_index :: "nat \<Rightarrow> int \<Rightarrow> error + nat" where
  "np_index n i =
     (let j = (if i < 0 then i + int n else i)
      in if 0 \<le> j \<and> j < int n then Inr (nat j) else Inl IndexError)"

text \<open>The indices that do not raise, and the position each of them names.\<close>

definition valid_index :: "nat \<Rightarrow> int \<Rightarrow> bool" where
  "valid_index n i = (- int n \<le> i \<and> i < int n)"

definition wrap_index :: "nat \<Rightarrow> int \<Rightarrow> nat" where
  "wrap_index n i = nat (if i < 0 then i + int n else i)"

text \<open>\<open>xs[..., idxs]\<close> for an integer index array.\<close>

fun np_take :: "'a list \<Rightarrow> int list \<Rightarrow> error + 'a list" where
  "np_take xs [] = Inr []"
| "np_take xs (i # is) =
     (case np_index (length xs) i of
        Inl e \<Rightarrow> Inl e
      | Inr j \<Rightarrow> (case np_take xs is of Inl e \<Rightarrow> Inl e | Inr ys \<Rightarrow> Inr (xs ! j # ys)))"

text \<open>A selector of \<open>RayBundle.inherit\<close>: the default \<open>N.s_[:]\<close> or an index array.\<close>

datatype selector = SliceAll | Indices "int list"

fun np_select :: "'a list \<Rightarrow> selector \<Rightarrow> error + 'a list" where
  "np_select xs SliceAll = Inr xs"
| "np_select xs (Indices is) = np_take xs is"

text \<open>\<open>N.delete(arr, obj)\<close> for an index array \<open>obj\<close>: every index is resolved (and
  checked) first, then the positions named are dropped.\<close>

definition np_delete :: "'a list \<Rightarrow> int list \<Rightarrow> error + 'a list" where
  "np_delete arr obj =
     (case np_take [0..<length arr] obj of
        Inl e \<Rightarrow> Inl e
      | Inr js \<Rightarrow> Inr (map (\<lambda>k. arr ! k) (filter (\<lambda>k. k \<notin> set js) [0..<length arr])))"

text \<open>The index-complement of a selector over \<open>range(n)\<close>, as the specification words it.\<close>

definition index_complement :: "nat \<Rightarrow> int list \<Rightarrow> int list" where
  "index_complement n sel = filter (\<lambda>i. i \<notin> set sel) (map int [0..<n])"

section \<open>RayBundle (tracer/ray\_bundle.py)\<close>

text \<open>An attribute the instance does not have is \<open>None\<close>.\<close>

record RayBundle =
  vertices :: "vec3 list option"
  directions :: "vec3 list option"
  energy :: "real list option"
  parents :: "int list option"
  ref_index :: "real list option"

text \<open>\<open>__init__\<close>: \<open>_create_property\<close> sets an attribute only when its initial value
  is not None.\<close>

definition RayBundle_init ::
  "vec3 list option \<Rightarrow> vec3 list option \<Rightarrow> real list option \<Rightarrow> int list option \<Rightarrow>
   real list option \<Rightarrow> RayBundle" where
  "RayBundle_init v d e p r =
     \<lparr>vertices = v, directions = d, energy = e, parents = p, ref_index = r\<rparr>"

text \<open>The generated getters read \<open>self.__dict__[attr]\<close>: KeyError when absent.\<close>

definition getter :: "'a option \<Rightarrow> error + 'a" where
  "getter a = (case a of None \<Rightarrow> Inl KeyError | Some x \<Rightarrow> Inr x)"

definition get_vertices :: "RayBundle \<Rightarrow> error + vec3 list" where
  "get_vertices b = getter (vertices b)"

definition get_directions :: "RayBundle \<Rightarrow> error + vec3 list" where
  "get_directions b = getter (directions b)"

definition get_num_rays :: "RayBundle \<Rightarrow> error + nat" where
  "get_num_rays b =
     (case vertices b of None \<Rightarrow> Inl AttributeError | Some vs \<Rightarrow> Inr (length vs))"

text \<open>One attribute of \<open>inherit\<close>: the override when given; else the selected columns
  of the bundle's own attribute when it has one; else nothing.\<close>

definition inherit_attr :: "selector \<Rightarrow> 'a list option \<Rightarrow> 'a list option \<Rightarrow> error + 'a list option" where
  "inherit_attr sel override own =
     (case override of
        Some a \<Rightarrow> Inr (Some a)
      | None \<Rightarrow>
          (case own of
             None \<Rightarrow> Inr None
           | Some xs \<Rightarrow> (case np_select xs sel of Inl e \<Rightarrow> Inl e | Inr ys \<Rightarrow> Inr (Some ys))))"

definition inherit ::
  "RayBundle \<Rightarrow> selector \<Rightarrow> vec3 list option \<Rightarrow> vec3 list option \<Rightarrow> real list option \<Rightarrow>
   int list option \<Rightarrow> real list option \<Rightarrow> error + RayBundle" where
  "inherit b sel v d e p r =
     bind_err (inherit_attr sel v (vertices b)) (\<lambda>v'.
     bind_err (inherit_attr sel d (directions b)) (\<lambda>d'.
     bind_err (inherit_attr sel e (energy b)) (\<lambda>e'.
     bind_err (inherit_attr sel p (parents b)) (\<lambda>p'.
     bind_err (inherit_attr sel r (ref_index b)) (\<lambda>r'.
       Inr (RayBundle_init v' d' e' p' r'))))))"

text \<open>\<open>__add__\<close>: a fresh bundle, then one guarded setter per attribute.\<close>

definition add :: "RayBundle \<Rightarrow> RayBundle \<Rightarrow> RayBundle" where
  "add self added =
     (let newbund = RayBundle_init None None None None None;
          newbund = (case (directions self, directions added) of
                       (Some x, Some y) \<Rightarrow> newbund\<lparr>directions := Some (x @ y)\<rparr>
                     | _ \<Rightarrow> newbund);
          newbund = (case (vertices self, vertices added) of
                       (Some x, Some y) \<Rightarrow> newbund\<lparr>vertices := Some (x @ y)\<rparr>
                     | _ \<Rightarrow> newbund);
          newbund = (case (energy self, energy added) of
                       (Some x, Some y) \<Rightarrow> newbund\<lparr>energy := Some (x @ y)\<rparr>
                     | _ \<Rightarrow> newbund);
          newbund = (case (parents self, parents added) of
                       (Some x, Some y) \<Rightarrow> newbund\<lparr>parents := Some (x @ y)\<rparr>
                     | _ \<Rightarrow> newbund);
          newbund = (case (ref_index self, ref_index added) of
                       (Some x, Some y) \<Rightarrow> newbund\<lparr>ref_index := Some (x @ y)\<rparr>
                     | _ \<Rightarrow> newbund)
      in newbund)"

definition empty_bund :: RayBundle where
  "empty_bund =
     (let empty = RayBundle_init None None None None None;
          empty = empty\<lparr>directions := Some []\<rparr>;
          empty = empty\<lparr>vertices := Some []\<rparr>;
          empty = empty\<lparr>energy := Some []\<rparr>;
          empty = empty\<lparr>parents := Some []\<rparr>;
          empty = empty\<lparr>ref_index := Some []\<rparr>
      in empty)"

definition delete_rays :: "RayBundle \<Rightarrow> int list \<Rightarrow> error + RayBundle" where
  "delete_rays b sel =
     bind_err (get_num_rays b) (\<lambda>n.
     bind_err (np_delete (map int [0..<n]) sel) (\<lambda>inherit_select.
       inherit b (Indices inherit_select) None None None None None))"

section \<open>Rotations and transforms (src/spatial\_geometry.py)\<close>

text \<open>A 3-by-3 or 4-by-4 array is the tuple of its rows.\<close>

type_synonym mat3 = "vec3 \<times> vec3 \<times> vec3"
type_synonym vec4 = "real \<times> real \<times> real \<times> real"
type_synonym mat4 = "vec4 \<times> vec4 \<times> vec4 \<times> vec4"

fun dot3 :: "vec3 \<Rightarrow> vec3 \<Rightarrow> real" where
  "dot3 (a0, a1, a2) (b0, b1, b2) = a0 * b0 + a1 * b1 + a2 * b2"

fun sub3 :: "vec3 \<Rightarrow> vec3 \<Rightarrow> vec3" where
  "sub3 (a0, a1, a2) (b0, b1, b2) = (a0 - b0, a1 - b1, a2 - b2)"

fun add3 :: "vec3 \<Rightarrow> vec3 \<Rightarrow> vec3" where
  "add3 (a0, a1, a2) (b0, b1, b2) = (a0 + b0, a1 + b1, a2 + b2)"

fun scale3 :: "real \<Rightarrow> vec3 \<Rightarrow> vec3" where
  "scale3 k (a0, a1, a2) = (k * a0, k * a1, k * a2)"

definition neg3 :: "vec3 \<Rightarrow> vec3" where
  "neg3 a = scale3 (- 1) a"

definition norm3 :: "vec3 \<Rightarrow> real" where
  "norm3 a = sqrt (dot3 a a)"

fun outer3 :: "vec3 \<Rightarrow> vec3 \<Rightarrow> mat3" where
  "outer3 (a0, a1, a2) b = (scale3 a0 b, scale3 a1 b, scale3 a2 b)"

definition eye3 :: mat3 where
  "eye3 = ((1, 0, 0), (0, 1, 0), (0, 0, 1))"

fun mat3_scale :: "mat3 \<Rightarrow> real \<Rightarrow> mat3" where
  "mat3_scale (r0, r1, r2) k = (scale3 k r0, scale3 k r1, scale3 k r2)"

fun mat3_add :: "mat3 \<Rightarrow> mat3 \<Rightarrow> mat3" where
  "mat3_add (r0, r1, r2) (q0, q1, q2) = (add3 r0 q0, add3 r1 q1, add3 r2 q2)"

fun mat3_vec :: "mat3 \<Rightarrow> vec3 \<Rightarrow> vec3" where
  "mat3_vec (r0, r1, r2) x = (dot3 r0 x, dot3 r1 x, dot3 r2 x)"

fun mat3_transpose :: "mat3 \<Rightarrow> mat3" where
  "mat3_transpose ((a, b, c), (d, e, f), (g, h, i)) = ((a, d, g), (b, e, h), (c, f, i))"

definition mat3_mul :: "mat3 \<Rightarrow> mat3 \<Rightarrow> mat3" where
  "mat3_mul m k =
     (case (m, mat3_transpose k) of
        ((r0, r1, r2), kt) \<Rightarrow> (mat3_vec kt r0, mat3_vec kt r1, mat3_vec kt r2))"

definition general_axis_rotation :: "vec3 \<Rightarrow> real \<Rightarrow> mat3" where
  "general_axis_rotation axis angle =
     (case axis of (a0, a1, a2) \<Rightarrow>
        let s = sin angle; c = cos angle; v = 1 - c;
            add = ((0, - a2, a1), (a2, 0, - a0), (- a1, a0, 0))
        in mat3_add (mat3_add (mat3_scale (outer3 axis axis) v) (mat3_scale eye3 c))
             (mat3_scale add s))"

text \<open>\<open>N.vstack((N.hstack((rot, translation)), N.r_[[0,0,0,1]]))\<close>.\<close>

fun hstack_col :: "mat3 \<Rightarrow> vec3 \<Rightarrow> vec4 \<times> vec4 \<times> vec4" where
  "hstack_col ((a, b, c), (d, e, f), (g, h, i)) (t0, t1, t2) =
     ((a, b, c, t0), (d, e, f, t1), (g, h, i, t2))"

fun vstack_row :: "vec4 \<times> vec4 \<times> vec4 \<Rightarrow> vec4 \<Rightarrow> mat4" where
  "vstack_row (r0, r1, r2) r3 = (r0, r1, r2, r3)"

definition generate_transform :: "vec3 \<Rightarrow> real \<Rightarrow> vec3 \<Rightarrow> mat4" where
  "generate_transform axis angle translation =
     (let rot = general_axis_rotation axis angle
      in vstack_row (hstack_col rot translation) (0, 0, 0, 1))"

text \<open>The parts of a frame the geometry managers read: \<open>frame[:3,:3]\<close> and
  \<open>frame[:3,j]\<close>.\<close>

fun nth4 :: "'a \<times> 'a \<times> 'a \<times> 'a \<Rightarrow> nat \<Rightarrow> 'a" where
  "nth4 (a, b, c, d) j = (if j = 0 then a else if j = 1 then b else if j = 2 then c else d)"

definition entry :: "mat4 \<Rightarrow> nat \<Rightarrow> nat \<Rightarrow> real" where
  "entry m i j = nth4 (nth4 m i) j"

definition frame_col :: "mat4 \<Rightarrow> nat \<Rightarrow> vec3" where
  "frame_col m j = (entry m 0 j, entry m 1 j, entry m 2 j)"

definition rot_block :: "mat4 \<Rightarrow> mat3" where
  "rot_block m =
     ((entry m 0 0, entry m 0 1, entry m 0 2),
      (entry m 1 0, entry m 1 1, entry m 1 2),
      (entry m 2 0, entry m 2 1, entry m 2 2))"

text \<open>\<open>N.linalg.inv\<close> on a 4-by-4 array: the inverse by cofactors, LinAlgError on a
  singular matrix.\<close>

definition mk4 :: "(nat \<Rightarrow> 'a) \<Rightarrow> 'a \<times> 'a \<times> 'a \<times> 'a" where
  "mk4 f = (f 0, f 1, f 2, f 3)"

fun others :: "nat \<Rightarrow> nat \<times> nat \<times> nat" where
  "others i = (if i = 0 then (1, 2, 3) else if i = 1 then (0, 2, 3)
               else if i = 2 then (0, 1, 3) else (0, 1, 2))"

definition minor :: "mat4 \<Rightarrow> nat \<Rightarrow> nat \<Rightarrow> real" where
  "minor m i j =
     (case (others i, others j) of ((r0, r1, r2), (c0, c1, c2)) \<Rightarrow>
        entry m r0 c0 * (entry m r1 c1 * entry m r2 c2 - entry m r1 c2 * entry m r2 c1)
      - entry m r0 c1 * (entry m r1 c0 * entry m r2 c2 - entry m r1 c2 * entry m r2 c0)
      + entry m r0 c2 * (entry m r1 c0 * entry m r2 c1 - entry m r1 c1 * entry m r2 c0))"

definition cofactor :: "mat4 \<Rightarrow> nat \<Rightarrow> nat \<Rightarrow> real" where
  "cofactor m i j = (if even (i + j) then minor m i j else - minor m i j)"

definition det4 :: "mat4 \<Rightarrow> real" where
  "det4 m = entry m 0 0 * cofactor m 0 0 + entry m 0 1 * cofactor m 0 1
          + entry m 0 2 * cofactor m 0 2 + entry m 0 3 * cofactor m 0 3"

definition linalg_inv :: "mat4 \<Rightarrow> error + mat4" where
  "linalg_inv m =
     (if det4 m = 0 then Inl LinAlgError
      else Inr (mk4 (\<lambda>i. mk4 (\<lambda>j. cofactor m j i / det4 m))))"

text \<open>A frame applied to a point in homogeneous coordinates: the world coordinates of a
  point given in the local frame.\<close>

fun dot4 :: "vec4 \<Rightarrow> vec4 \<Rightarrow> real" where
  "dot4 (a0, a1, a2, a3) (b0, b1, b2, b3) = a0 * b0 + a1 * b1 + a2 * b2 + a3 * b3"

fun mat4_vec :: "mat4 \<Rightarrow> vec4 \<Rightarrow> vec4" where
  "mat4_vec (r0, r1, r2, r3) x = (dot4 r0 x, dot4 r1 x, dot4 r2 x, dot4 r3 x)"

fun homogeneous :: "vec3 \<Rightarrow> vec4" where
  "homogeneous (x, y, z) = (x, y, z, 1)"

section \<open>Non-finite values\<close>

datatype fl = Fin real | PInf | NInf | NaN

type_synonym fl3 = "fl \<times> fl \<times> fl"
type_synonym fl4 = "fl \<times> fl \<times> fl \<times> fl"

fun fl_add :: "fl \<Rightarrow> fl \<Rightarrow> fl" where
  "fl_add (Fin a) (Fin b) = Fin (a + b)"
| "fl_add NaN y = NaN"
| "fl_add x NaN = NaN"
| "fl_add PInf NInf = NaN"
| "fl_add NInf PInf = NaN"
| "fl_add PInf y = PInf"
| "fl_add x PInf = PInf"
| "fl_add NInf y = NInf"
| "fl_add x NInf = NInf"

fun fl_mul :: "fl \<Rightarrow> fl \<Rightarrow> fl" where
  "fl_mul (Fin a) (Fin b) = Fin (a * b)"
| "fl_mul NaN y = NaN"
| "fl_mul x NaN = NaN"
| "fl_mul PInf (Fin b) = (if b = 0 then NaN else if 0 < b then PInf else NInf)"
| "fl_mul NInf (Fin b) = (if b = 0 then NaN else if 0 < b then NInf else PInf)"
| "fl_mul (Fin a) PInf = (if a = 0 then NaN else if 0 < a then PInf else NInf)"
| "fl_mul (Fin a) NInf = (if a = 0 then NaN else if 0 < a then NInf else PInf)"
| "fl_mul PInf PInf = PInf"
| "fl_mul PInf NInf = NInf"
| "fl_mul NInf PInf = NInf"
| "fl_mul NInf NInf = PInf"

fun fl_abs :: "fl \<Rightarrow> fl" where
  "fl_abs (Fin a) = Fin \<bar>a\<bar>"
| "fl_abs PInf = PInf"
| "fl_abs NInf = PInf"
| "fl_abs NaN = NaN"

text \<open>\<open>x < y\<close> on floating-point values: false whenever a \<open>nan\<close> is compared.\<close>

fun fl_less :: "fl \<Rightarrow> fl \<Rightarrow> bool" where
  "fl_less (Fin a) (Fin b) = (a < b)"
| "fl_less NaN y = False"
| "fl_less x NaN = False"
| "fl_less x NInf = False"
| "fl_less PInf y = False"
| "fl_less NInf y = True"
| "fl_less x PInf = True"

definition fl_greater :: "fl \<Rightarrow> fl \<Rightarrow> bool" where
  "fl_greater x y = fl_less y x"

section \<open>Boolean masks\<close>

text \<open>\<open>xs[..., mask]\<close>, \<open>xs[mask] = vals\<close>, \<open>xs[mask] = c\<close> and \<open>N.nonzero(mask)[0]\<close>.
  A mask whose length is not that of the axis raises IndexError.\<close>

definition compress :: "bool list \<Rightarrow> 'a list \<Rightarrow> error + 'a list" where
  "compress msk xs =
     (if length msk \<noteq> length xs then Inl IndexError
      else Inr (map snd (filter fst (zip msk xs))))"

fun put_mask_raw :: "'a list \<Rightarrow> bool list \<Rightarrow> 'a list \<Rightarrow> 'a list" where
  "put_mask_raw (x # xs) (True # ms) (v # vs) = v # put_mask_raw xs ms vs"
| "put_mask_raw (x # xs) (False # ms) vs = x # put_mask_raw xs ms vs"
| "put_mask_raw xs ms vs = xs"

definition put_mask :: "'a list \<Rightarrow> bool list \<Rightarrow> 'a list \<Rightarrow> error + 'a list" where
  "put_mask xs msk vals =
     (if length msk \<noteq> length xs then Inl IndexError
      else if length vals \<noteq> length (filter id msk) then Inl ValueError
      else Inr (put_mask_raw xs msk vals))"

definition fill_mask :: "'a list \<Rightarrow> bool list \<Rightarrow> 'a \<Rightarrow> error + 'a list" where
  "fill_mask xs msk c =
     (if length msk \<noteq> length xs then Inl IndexError
      else Inr (map (\<lambda>(x, m). if m then c else x) (zip xs msk)))"

definition nonzero :: "bool list \<Rightarrow> nat list" where
  "nonzero msk = filter (\<lambda>j. msk ! j) [0..<length msk]"

section \<open>Flat surfaces (tracer/flat\_surface.py)\<close>

text \<open>\<open>_backside\<close> is a boolean array after \<open>find_intersections\<close> and an array of
  positions after \<open>select_rays\<close>.\<close>

datatype backside = BackMask "bool list" | BackIdx "nat list"

text \<open>The instance attributes of the class hierarchy; an attribute that is not set (or
  was deleted) is \<open>None\<close>. Reading one that is not set raises AttributeError.\<close>

record GeometryManager =
  gm_working_frame :: "mat4 option"
  gm_working_bundle :: "RayBundle option"

record FlatGeometryManager = GeometryManager +
  gm_params :: "fl list option"
  gm_backside :: "backside option"
  gm_idxs :: "int list option"
  gm_global :: "fl3 list option"

record FiniteFlatGM = FlatGeometryManager +
  gm_local :: "fl4 list option"

record RectPlateGM = FiniteFlatGM +
  gm_half_dims :: "real \<times> real"

record RoundPlateGM = FiniteFlatGM +
  gm_R :: real

definition attr :: "'a option \<Rightarrow> error + 'a" where
  "attr a = (case a of None \<Rightarrow> Inl AttributeError | Some x \<Rightarrow> Inr x)"

text \<open>Modelled from the spec: \<open>GeometryManager.find_intersections\<close> and
  \<open>GeometryManager.__init__\<close> (tracer/geometry\_manager.py is not among the sources).
  The base method stores the working frame and the working bundle; the base constructor
  sets no attribute and does not fail.\<close>

definition GeometryManager_find_intersections ::
  "'a GeometryManager_scheme \<Rightarrow> mat4 \<Rightarrow> RayBundle \<Rightarrow> 'a GeometryManager_scheme" where
  "GeometryManager_find_intersections self frame ray_bundle =
     self\<lparr>gm_working_frame := Some frame, gm_working_bundle := Some ray_bundle\<rparr>"

text \<open>\<open>FiniteFlatGM.__init__\<close> and, for the infinite plane, the inherited constructor:
  a fresh instance has none of the working attributes.\<close>

definition FiniteFlatGM_init :: FiniteFlatGM where
  "FiniteFlatGM_init =
     \<lparr>gm_working_frame = None, gm_working_bundle = None, gm_params = None,
      gm_backside = None, gm_idxs = None, gm_global = None, gm_local = None\<rparr>"

definition FlatGeometryManager_init :: FlatGeometryManager where
  "FlatGeometryManager_init =
     \<lparr>gm_working_frame = None, gm_working_bundle = None, gm_params = None,
      gm_backside = None, gm_idxs = None, gm_global = None\<rparr>"

definition FlatGeometryManager_find_intersections ::
  "'a FlatGeometryManager_scheme \<Rightarrow> mat4 \<Rightarrow> RayBundle \<Rightarrow>
   error + (fl list \<times> 'a FlatGeometryManager_scheme)" where
  "FlatGeometryManager_find_intersections self frame ray_bundle =
     (let self = GeometryManager_find_intersections self frame ray_bundle in
      bind_err (get_directions ray_bundle) (\<lambda>d.
      bind_err (get_vertices ray_bundle) (\<lambda>vs.
      let v = map (\<lambda>x. sub3 x (frame_col frame 3)) vs in
      bind_err (get_num_rays ray_bundle) (\<lambda>n.
      let dt = map (\<lambda>x. dot3 x (frame_col frame 2)) d;
          unparallel = map (\<lambda>x. \<bar>x\<bar> > 1 / 10 ^ 10) dt;
          params = replicate n PInf in
      bind_err (compress unparallel v) (\<lambda>vu.
      let vt = map (dot3 (frame_col frame 2)) vu in
      bind_err (compress unparallel dt) (\<lambda>dtu.
      bind_err (put_mask params unparallel (map (\<lambda>(a, b). Fin (- a / b)) (zip vt dtu)))
        (\<lambda>params.
      let negative = map (\<lambda>p. fl_less p (Fin 0)) params in
      bind_err (fill_mask params negative PInf) (\<lambda>params.
      let self = self\<lparr>gm_params := Some params\<rparr>;
          self = self\<lparr>gm_backside := Some (BackMask (map (\<lambda>x. x > 0) dt))\<rparr>
      in Inr (params, self)))))))))"

text \<open>\<open>N.nonzero(self._backside[idxs])[0]\<close>.\<close>

fun backside_select :: "backside \<Rightarrow> int list \<Rightarrow> error + nat list" where
  "backside_select (BackMask m) idxs =
     bind_err (np_take m idxs) (\<lambda>sel. Inr (nonzero sel))"
| "backside_select (BackIdx js) idxs =
     bind_err (np_take js idxs) (\<lambda>sel. Inr (nonzero (map (\<lambda>j. j \<noteq> 0) sel)))"

text \<open>\<open>v + p[None,:]*d\<close>, column by column.\<close>

fun hit_point :: "vec3 \<times> fl \<times> vec3 \<Rightarrow> fl3" where
  "hit_point ((v0, v1, v2), p, (d0, d1, d2)) =
     (fl_add (Fin v0) (fl_mul p (Fin d0)),
      fl_add (Fin v1) (fl_mul p (Fin d1)),
      fl_add (Fin v2) (fl_mul p (Fin d2)))"

definition hit_points :: "vec3 list \<Rightarrow> fl list \<Rightarrow> vec3 list \<Rightarrow> fl3 list" where
  "hit_points v p d = map hit_point (zip v (zip p d))"

definition FlatGeometryManager_select_rays ::
  "'a FlatGeometryManager_scheme \<Rightarrow> int list \<Rightarrow> error + 'a FlatGeometryManager_scheme" where
  "FlatGeometryManager_select_rays self idxs =
     (let self = self\<lparr>gm_idxs := Some idxs\<rparr> in
      bind_err (attr (gm_backside self)) (\<lambda>bs.
      bind_err (backside_select bs idxs) (\<lambda>bi.
      let self = self\<lparr>gm_backside := Some (BackIdx bi)\<rparr> in
      bind_err (attr (gm_working_bundle self)) (\<lambda>wb.
      bind_err (get_vertices wb) (\<lambda>vs.
      bind_err (np_take vs idxs) (\<lambda>v.
      bind_err (get_directions wb) (\<lambda>ds.
      bind_err (np_take ds idxs) (\<lambda>d.
      bind_err (attr (gm_params self)) (\<lambda>ps.
      bind_err (np_take ps idxs) (\<lambda>p.
      let self = self\<lparr>gm_params := None\<rparr>;
          self = self\<lparr>gm_global := Some (hit_points v p d)\<rparr>
      in Inr self))))))))))"

text \<open>\<open>norms[:, self._backside] *= -1\<close>: the columns named are read, negated and written
  back; a position outside the array raises IndexError.\<close>

fun negate_cols :: "vec3 list \<Rightarrow> backside \<Rightarrow> error + vec3 list" where
  "negate_cols norms (BackIdx js) =
     (if list_ex (\<lambda>j. length norms \<le> j) js then Inl IndexError
      else Inr (foldl (\<lambda>a j. a[j := neg3 (norms ! j)]) norms js))"
| "negate_cols norms (BackMask m) =
     (if length m \<noteq> length norms then Inl IndexError
      else Inr (map (\<lambda>(x, b). if b then neg3 x else x) (zip norms m)))"

definition FlatGeometryManager_get_normals ::
  "'a FlatGeometryManager_scheme \<Rightarrow> error + vec3 list" where
  "FlatGeometryManager_get_normals self =
     bind_err (attr (gm_working_frame self)) (\<lambda>frame.
     bind_err (attr (gm_idxs self)) (\<lambda>idxs.
     let norms = replicate (length idxs) (frame_col frame 2) in
     bind_err (attr (gm_backside self)) (\<lambda>bs.
       negate_cols norms bs)))"

definition FlatGeometryManager_get_intersection_points_global ::
  "'a FlatGeometryManager_scheme \<Rightarrow> error + fl3 list" where
  "FlatGeometryManager_get_intersection_points_global self = attr (gm_global self)"

text \<open>\<open>N.dot(N.linalg.inv(frame), N.vstack((global, ones)))\<close>, column by column.\<close>

fun fl_dot4 :: "vec4 \<Rightarrow> fl4 \<Rightarrow> fl" where
  "fl_dot4 (m0, m1, m2, m3) (x0, x1, x2, x3) =
     fl_add (fl_add (fl_add (fl_mul (Fin m0) x0) (fl_mul (Fin m1) x1)) (fl_mul (Fin m2) x2))
       (fl_mul (Fin m3) x3)"

fun to_local :: "mat4 \<Rightarrow> fl3 \<Rightarrow> fl4" where
  "to_local (r0, r1, r2, r3) (g0, g1, g2) =
     (let x = (g0, g1, g2, Fin 1) in (fl_dot4 r0 x, fl_dot4 r1 x, fl_dot4 r2 x, fl_dot4 r3 x))"

definition FiniteFlatGM_find_intersections ::
  "'a FiniteFlatGM_scheme \<Rightarrow> mat4 \<Rightarrow> RayBundle \<Rightarrow> error + (fl list \<times> 'a FiniteFlatGM_scheme)" where
  "FiniteFlatGM_find_intersections self frame ray_bundle =
     bind_err (FlatGeometryManager_find_intersections self frame ray_bundle) (\<lambda>(ray_prms, self).
     bind_err (attr (gm_working_bundle self)) (\<lambda>wb.
     bind_err (get_vertices wb) (\<lambda>v.
     bind_err (get_directions wb) (\<lambda>d.
     bind_err (attr (gm_params self)) (\<lambda>p.
     let self = self\<lparr>gm_params := None\<rparr>;
         glob = hit_points v p d;
         self = self\<lparr>gm_global := Some glob\<rparr> in
     bind_err (attr (gm_working_frame self)) (\<lambda>wf.
     bind_err (linalg_inv wf) (\<lambda>inv_frame.
     let self = self\<lparr>gm_local := Some (map (to_local inv_frame) glob)\<rparr>
     in Inr (ray_prms, self))))))))"

definition FiniteFlatGM_select_rays ::
  "'a FiniteFlatGM_scheme \<Rightarrow> int list \<Rightarrow> error + 'a FiniteFlatGM_scheme" where
  "FiniteFlatGM_select_rays self idxs =
     (let self = self\<lparr>gm_idxs := Some idxs\<rparr> in
      bind_err (attr (gm_backside self)) (\<lambda>bs.
      bind_err (backside_select bs idxs) (\<lambda>bi.
      let self = self\<lparr>gm_backside := Some (BackIdx bi)\<rparr> in
      bind_err (attr (gm_global self)) (\<lambda>g.
      bind_err (np_take g idxs) (\<lambda>g'.
        Inr (self\<lparr>gm_global := Some g'\<rparr>))))))"

definition RectPlateGM_init :: "real \<Rightarrow> real \<Rightarrow> error + RectPlateGM" where
  "RectPlateGM_init width height =
     (if width \<le> 0 then Inl ValueError
      else if height \<le> 0 then Inl ValueError
      else Inr (FiniteFlatGM.extend FiniteFlatGM_init
                  (RectPlateGM.fields (width / 2, height / 2))))"

text \<open>\<open>N.any(abs(self._local[:2]) > self._half_dims, axis=0)\<close> for one column.\<close>

fun outside_rect :: "real \<times> real \<Rightarrow> fl4 \<Rightarrow> bool" where
  "outside_rect (hw, hh) (x, y, z, w) =
     (fl_greater (fl_abs x) (Fin hw) \<or> fl_greater (fl_abs y) (Fin hh))"

definition RectPlateGM_find_intersections ::
  "'a RectPlateGM_scheme \<Rightarrow> mat4 \<Rightarrow> RayBundle \<Rightarrow> error + (fl list \<times> 'a RectPlateGM_scheme)" where
  "RectPlateGM_find_intersections self frame ray_bundle =
     bind_err (FiniteFlatGM_find_intersections self frame ray_bundle) (\<lambda>(ray_prms, self).
     bind_err (attr (gm_local self)) (\<lambda>loc.
     bind_err (fill_mask ray_prms (map (outside_rect (gm_half_dims self)) loc) PInf) (\<lambda>ray_prms.
     let self = self\<lparr>gm_local := None\<rparr>
     in Inr (ray_prms, self))))"

definition RoundPlateGM_init :: "real \<Rightarrow> error + RoundPlateGM" where
  "RoundPlateGM_init radius =
     (if radius \<le> 0 then Inl ValueError
      else Inr (FiniteFlatGM.extend FiniteFlatGM_init (RoundPlateGM.fields radius)))"

text \<open>\<open>N.sum(self._local[:2]**2, axis=0) > self._R**2\<close> for one column.\<close>

fun outside_round :: "real \<Rightarrow> fl4 \<Rightarrow> bool" where
  "outside_round r (x, y, z, w) =
     fl_greater (fl_add (fl_mul x x) (fl_mul y y)) (Fin (r * r))"

definition RoundPlateGM_find_intersections ::
  "'a RoundPlateGM_scheme \<Rightarrow> mat4 \<Rightarrow> RayBundle \<Rightarrow> error + (fl list \<times> 'a RoundPlateGM_scheme)" where
  "RoundPlateGM_find_intersections self frame ray_bundle =
     bind_err (FiniteFlatGM_find_intersections self frame ray_bundle) (\<lambda>(ray_prms, self).
     bind_err (attr (gm_local self)) (\<lambda>loc.
     bind_err (fill_mask ray_prms (map (outside_round (gm_R self)) loc) PInf) (\<lambda>ray_prms.
     let self = self\<lparr>gm_local := None\<rparr>
     in Inr (ray_prms, self))))"

text \<open>The parametric distance of one ray with vertex \<open>v\<close> and direction \<open>d\<close>, as the
  specification words it.\<close>

definition ray_distance :: "mat4 \<Rightarrow> vec3 \<Rightarrow> vec3 \<Rightarrow> fl" where
  "ray_distance frame v d =
     (let dt = dot3 d (frame_col frame 2);
          vt = dot3 (frame_col frame 2) (sub3 v (frame_col frame 3))
      in if \<bar>dt\<bar> \<le> 1 / 10 ^ 10 then PInf
         else if - vt / dt < 0 then PInf
         else Fin (- vt / dt))"

text \<open>A point with finite coordinates.\<close>

fun fin3 :: "vec3 \<Rightarrow> fl3" where
  "fin3 (x, y, z) = (Fin x, Fin y, Fin z)"

section \<open>Merging bundles\<close>

lemma add_fields:
  "vertices (add a b) = (case (vertices a, vertices b) of (Some x, Some y) \<Rightarrow> Some (x @ y) | _ \<Rightarrow> None)"
  "directions (add a b) = (case (directions a, directions b) of (Some x, Some y) \<Rightarrow> Some (x @ y) | _ \<Rightarrow> None)"
  "energy (add a b) = (case (energy a, energy b) of (Some x, Some y) \<Rightarrow> Some (x @ y) | _ \<Rightarrow> None)"
  "parents (add a b) = (case (parents a, parents b) of (Some x, Some y) \<Rightarrow> Some (x @ y) | _ \<Rightarrow> None)"
  "ref_index (add a b) = (case (ref_index a, ref_index b) of (Some x, Some y) \<Rightarrow> Some (x @ y) | _ \<Rightarrow> None)"
  by (simp_all add: add_def RayBundle_init_def Let_def split: option.splits)

text \<open>
  Claim C5. For every pair of bundles \<open>a\<close> and \<open>b\<close>, \<open>a + b\<close> is a new bundle in which
  each of the five attributes present on both operands is the columns of \<open>a\<close> followed by
  the columns of \<open>b\<close>, and each attribute missing on either operand is absent.
\<close>

theorem add_concatenates_common_attributes:
  "(\<forall>x y. vertices a = Some x \<and> vertices b = Some y \<longrightarrow> vertices (add a b) = Some (x @ y)) \<and>
   (\<forall>x y. directions a = Some x \<and> directions b = Some y \<longrightarrow> directions (add a b) = Some (x @ y)) \<and>
   (\<forall>x y. energy a = Some x \<and> energy b = Some y \<longrightarrow> energy (add a b) = Some (x @ y)) \<and>
   (\<forall>x y. parents a = Some x \<and> parents b = Some y \<longrightarrow> parents (add a b) = Some (x @ y)) \<and>
   (\<forall>x y. ref_index a = Some x \<and> ref_index b = Some y \<longrightarrow> ref_index (add a b) = Some (x @ y)) \<and>
   (vertices a = None \<or> vertices b = None \<longrightarrow> vertices (add a b) = None) \<and>
   (directions a = None \<or> directions b = None \<longrightarrow> directions (add a b) = None) \<and>
   (energy a = None \<or> energy b = None \<longrightarrow> energy (add a b) = None) \<and>
   (parents a = None \<or> parents b = None \<longrightarrow> parents (add a b) = None) \<and>
   (ref_index a = None \<or> ref_index b = None \<longrightarrow> ref_index (add a b) = None)"
  by (simp add: add_fields split: option.splits)

theorem add_concatenates_common_attributes_witness:
  "vertices (add \<lparr>vertices = Some [(0, 0, 1)], directions = Some [(0, 0, - 1)],
                  energy = Some [5], parents = None, ref_index = None\<rparr>
                 \<lparr>vertices = Some [(1, 0, 1), (2, 0, 1)], directions = Some [(0, 1, 0), (1, 0, 0)],
                  energy = None, parents = None, ref_index = Some [1, 1]\<rparr>)
     = Some [(0, 0, 1), (1, 0, 1), (2, 0, 1)] \<and>
   energy (add \<lparr>vertices = Some [(0, 0, 1)], directions = Some [(0, 0, - 1)],
                  energy = Some [5], parents = None, ref_index = None\<rparr>
                 \<lparr>vertices = Some [(1, 0, 1), (2, 0, 1)], directions = Some [(0, 1, 0), (1, 0, 0)],
                  energy = None, parents = None, ref_index = Some [1, 1]\<rparr>) = None"
  using add_concatenates_common_attributes
    [of "\<lparr>vertices = Some [(0, 0, 1)], directions = Some [(0, 0, - 1)],
                  energy = Some [5], parents = None, ref_index = None\<rparr>"
        "\<lparr>vertices = Some [(1, 0, 1), (2, 0, 1)], directions = Some [(0, 1, 0), (1, 0, 0)],
                  energy = None, parents = None, ref_index = Some [1, 1]\<rparr>"]
  by simp

lemma empty_bund_fields:
  "vertices empty_bund = Some []" "directions empty_bund = Some []" "energy empty_bund = Some []"
  "parents empty_bund = Some []" "ref_index empty_bund = Some []"
  by (simp_all add: empty_bund_def RayBundle_init_def)

text \<open>
  Claim C10. \<open>empty_bund()\<close> has all five attributes, with zero rays, and is a left and
  right identity of \<open>+\<close> on bundles that have all five attributes.
\<close>

theorem empty_bund_is_identity_of_add:
  "vertices empty_bund = Some [] \<and> directions empty_bund = Some [] \<and> energy empty_bund = Some [] \<and>
   parents empty_bund = Some [] \<and> ref_index empty_bund = Some [] \<and>
   get_num_rays empty_bund = Inr 0 \<and>
   (vertices b \<noteq> None \<and> directions b \<noteq> None \<and> energy b \<noteq> None \<and> parents b \<noteq> None \<and>
    ref_index b \<noteq> None \<longrightarrow> add empty_bund b = b \<and> add b empty_bund = b)"
proof -
  have num: "get_num_rays empty_bund = Inr 0"
    by (simp add: get_num_rays_def empty_bund_fields)
  have ident: "add empty_bund b = b \<and> add b empty_bund = b"
    if "vertices b \<noteq> None" "directions b \<noteq> None" "energy b \<noteq> None" "parents b \<noteq> None"
       "ref_index b \<noteq> None"
    using that by (cases b) (auto simp: add_fields empty_bund_fields intro!: RayBundle.equality)
  from num ident show ?thesis by (simp add: empty_bund_fields)
qed

theorem empty_bund_is_identity_of_add_witness:
  "add empty_bund \<lparr>vertices = Some [(0, 0, 1)], directions = Some [(0, 0, - 1)],
                   energy = Some [5], parents = Some [0], ref_index = Some [1]\<rparr>
     = \<lparr>vertices = Some [(0, 0, 1)], directions = Some [(0, 0, - 1)],
                   energy = Some [5], parents = Some [0], ref_index = Some [1]\<rparr> \<and>
   add \<lparr>vertices = Some [(0, 0, 1)], directions = Some [(0, 0, - 1)],
                   energy = Some [5], parents = Some [0], ref_index = Some [1]\<rparr> empty_bund
     = \<lparr>vertices = Some [(0, 0, 1)], directions = Some [(0, 0, - 1)],
                   energy = Some [5], parents = Some [0], ref_index = Some [1]\<rparr>"
  using empty_bund_is_identity_of_add
    [of "\<lparr>vertices = Some [(0, 0, 1)], directions = Some [(0, 0, - 1)],
                   energy = Some [5], parents = Some [0], ref_index = Some [1]\<rparr>"]
  by simp

section \<open>Selecting and deleting rays\<close>

lemma np_index_valid: "valid_index n i \<Longrightarrow> np_index n i = Inr (wrap_index n i)"
  by (simp add: np_index_def valid_index_def wrap_index_def)

lemma np_take_valid:
  "list_all (valid_index (length xs)) js \<Longrightarrow>
   np_take xs js = Inr (map (\<lambda>i. xs ! wrap_index (length xs) i) js)"
  by (induction js) (simp_all add: np_index_valid)

lemma wrap_index_less: "valid_index n i \<Longrightarrow> wrap_index n i < n"
  by (auto simp: valid_index_def wrap_index_def)

lemma inherit_attr_valid:
  assumes "list_all (valid_index n) js" and "\<forall>xs. own = Some xs \<longrightarrow> length xs = n"
  shows "inherit_attr (Indices js) ov own =
         Inr (case ov of Some a \<Rightarrow> Some a
              | None \<Rightarrow> map_option (\<lambda>xs. map (\<lambda>i. xs ! wrap_index n i) js) own)"
  using assms by (auto simp: inherit_attr_def np_take_valid split: option.splits)

text \<open>
  Claim C6, as amended. \<open>inherit\<close> makes no length check. With a selector of valid
  indices into a bundle whose attributes have \<open>n\<close> columns, the call returns a bundle
  that holds every override exactly as it was given, whatever its length, and for every
  other attribute the bundle has, the selected columns. The counterexample to the claim
  as stated has a selector of length 2 and an energy override of length 1: the call
  returns a bundle with two vertices and one energy.
\<close>

theorem inherit_takes_overrides_unchecked:
  assumes "list_all (valid_index n) js"
    and "\<forall>xs. vertices b = Some xs \<longrightarrow> length xs = n"
    and "\<forall>xs. directions b = Some xs \<longrightarrow> length xs = n"
    and "\<forall>xs. energy b = Some xs \<longrightarrow> length xs = n"
    and "\<forall>xs. parents b = Some xs \<longrightarrow> length xs = n"
    and "\<forall>xs. ref_index b = Some xs \<longrightarrow> length xs = n"
  shows "inherit b (Indices js) v d e p r =
     Inr \<lparr>vertices = (case v of Some a \<Rightarrow> Some a
                      | None \<Rightarrow> map_option (\<lambda>xs. map (\<lambda>i. xs ! wrap_index n i) js) (vertices b)),
          directions = (case d of Some a \<Rightarrow> Some a
                      | None \<Rightarrow> map_option (\<lambda>xs. map (\<lambda>i. xs ! wrap_index n i) js) (directions b)),
          energy = (case e of Some a \<Rightarrow> Some a
                      | None \<Rightarrow> map_option (\<lambda>xs. map (\<lambda>i. xs ! wrap_index n i) js) (energy b)),
          parents = (case p of Some a \<Rightarrow> Some a
                      | None \<Rightarrow> map_option (\<lambda>xs. map (\<lambda>i. xs ! wrap_index n i) js) (parents b)),
          ref_index = (case r of Some a \<Rightarrow> Some a
                      | None \<Rightarrow> map_option (\<lambda>xs. map (\<lambda>i. xs ! wrap_index n i) js) (ref_index b))\<rparr>"
  unfolding inherit_def
  by (simp add: inherit_attr_valid [OF assms(1)] assms(2-6) bind_err_def RayBundle_init_def)

theorem inherit_mismatched_override_counterexample:
  "inherit \<lparr>vertices = Some [(0, 0, 1), (1, 0, 1), (2, 0, 1)],
            directions = Some [(0, 0, - 1), (0, 0, - 1), (0, 0, - 1)],
            energy = Some [1, 2, 3], parents = None, ref_index = None\<rparr>
     (Indices [0, 1]) None None (Some [9]) None None
   = Inr \<lparr>vertices = Some [(0, 0, 1), (1, 0, 1)], directions = Some [(0, 0, - 1), (0, 0, - 1)],
          energy = Some [9], parents = None, ref_index = None\<rparr>"
  by (simp add: inherit_def inherit_attr_def bind_err_def RayBundle_init_def np_index_def)

theorem inherit_takes_overrides_unchecked_witness:
  "inherit \<lparr>vertices = Some [(0, 0, 1), (1, 0, 1), (2, 0, 1)],
            directions = Some [(0, 0, - 1), (0, 0, - 1), (0, 0, - 1)],
            energy = Some [1, 2, 3], parents = None, ref_index = None\<rparr>
     (Indices [0, - 1]) None None (Some [9]) None None
   = Inr \<lparr>vertices = Some [(0, 0, 1), (2, 0, 1)], directions = Some [(0, 0, - 1), (0, 0, - 1)],
          energy = Some [9], parents = None, ref_index = None\<rparr>"
  using inherit_takes_overrides_unchecked
    [of 3 "[0, - 1]" "\<lparr>vertices = Some [(0, 0, 1), (1, 0, 1), (2, 0, 1)],
            directions = Some [(0, 0, - 1), (0, 0, - 1), (0, 0, - 1)],
            energy = Some [1, 2, 3], parents = None, ref_index = None\<rparr>" None None "Some [9]" None None]
  by (simp add: valid_index_def wrap_index_def)

lemma np_delete_arange:
  assumes "\<forall>i\<in>set sel. 0 \<le> i \<and> i < int n"
  shows "np_delete (map int [0..<n]) sel = Inr (index_complement n sel)"
proof -
  have valid: "list_all (valid_index (length [0..<n])) sel"
    using assms by (auto simp: list_all_iff valid_index_def)
  have wrap: "map (\<lambda>i. [0..<n] ! wrap_index (length [0..<n]) i) sel = map nat sel"
    using assms by (auto simp: wrap_index_def)
  have mem: "(k \<notin> set (map nat sel)) = (int k \<notin> set sel)" for k
  proof -
    have "k \<in> nat ` set sel \<longleftrightarrow> int k \<in> set sel"
    proof
      assume "k \<in> nat ` set sel"
      then obtain i where i: "i \<in> set sel" "k = nat i" by auto
      with assms have "int k = i" by auto
      with i show "int k \<in> set sel" by simp
    next
      assume "int k \<in> set sel"
      then have "nat (int k) \<in> nat ` set sel" by (rule imageI)
      then show "k \<in> nat ` set sel" by simp
    qed
    then show ?thesis by simp
  qed
  have "map (\<lambda>k. map int [0..<n] ! k) (filter (\<lambda>k. k \<notin> set (map nat sel)) [0..<n])
        = map (\<lambda>k. map int [0..<n] ! k) (filter (\<lambda>k. int k \<notin> set sel) [0..<n])"
    by (simp only: mem)
  also have "\<dots> = map int (filter (\<lambda>k. int k \<notin> set sel) [0..<n])"
    by (rule map_cong) simp_all
  also have "\<dots> = index_complement n sel"
    by (simp add: index_complement_def filter_map comp_def)
  finally have kept: "map (\<lambda>k. map int [0..<n] ! k) (filter (\<lambda>k. k \<notin> set (map nat sel)) [0..<n])
        = index_complement n sel" .
  have "np_take [0..<n] sel = Inr (map nat sel)"
    using np_take_valid [OF valid] by (simp only: wrap)
  then have "np_delete (map int [0..<n]) sel =
      Inr (map (\<lambda>k. map int [0..<n] ! k) (filter (\<lambda>k. k \<notin> set (map nat sel)) [0..<n]))"
    by (simp add: np_delete_def)
  then show ?thesis by (simp only: kept)
qed

text \<open>
  Claim C7. For a bundle with \<open>n\<close> rays and a selector of indices in \<open>range(n)\<close>,
  \<open>delete_rays(selector)\<close> returns what \<open>inherit\<close> returns with no overrides and the
  index-complement of the selector over \<open>range(n)\<close>.
\<close>

theorem delete_rays_is_inherit_of_complement:
  assumes "vertices b = Some vs" and "\<forall>i\<in>set sel. 0 \<le> i \<and> i < int (length vs)"
  shows "delete_rays b sel =
         inherit b (Indices (index_complement (length vs) sel)) None None None None None"
  using assms by (simp add: delete_rays_def get_num_rays_def bind_err_def np_delete_arange)

theorem delete_rays_is_inherit_of_complement_witness:
  "delete_rays \<lparr>vertices = Some [(0, 0, 1), (1, 0, 1), (2, 0, 1)],
            directions = Some [(0, 0, - 1), (0, 0, - 1), (0, 0, - 1)],
            energy = Some [1, 2, 3], parents = None, ref_index = None\<rparr> [1]
   = Inr \<lparr>vertices = Some [(0, 0, 1), (2, 0, 1)], directions = Some [(0, 0, - 1), (0, 0, - 1)],
          energy = Some [1, 3], parents = None, ref_index = None\<rparr> \<and>
   index_complement 3 [1] = [0, 2]"
  using delete_rays_is_inherit_of_complement
    [of "\<lparr>vertices = Some [(0, 0, 1), (1, 0, 1), (2, 0, 1)],
            directions = Some [(0, 0, - 1), (0, 0, - 1), (0, 0, - 1)],
            energy = Some [1, 2, 3], parents = None, ref_index = None\<rparr>"
        "[(0, 0, 1), (1, 0, 1), (2, 0, 1)]" "[1]"]
  by (simp add: index_complement_def inherit_def inherit_attr_def bind_err_def RayBundle_init_def
      np_index_def upt_rec)

section \<open>Rotation about an axis\<close>

lemma rotation_entries:
  "general_axis_rotation (a0, a1, a2) angle =
    ((a0 * a0 * (1 - cos angle) + cos angle,
      a0 * a1 * (1 - cos angle) - a2 * sin angle,
      a0 * a2 * (1 - cos angle) + a1 * sin angle),
     (a1 * a0 * (1 - cos angle) + a2 * sin angle,
      a1 * a1 * (1 - cos angle) + cos angle,
      a1 * a2 * (1 - cos angle) - a0 * sin angle),
     (a2 * a0 * (1 - cos angle) - a1 * sin angle,
      a2 * a1 * (1 - cos angle) + a0 * sin angle,
      a2 * a2 * (1 - cos angle) + cos angle))"
  by (simp add: general_axis_rotation_def eye3_def Let_def algebra_simps)

lemma unit_axis_sq: "norm3 (a0, a1, a2) = 1 \<Longrightarrow> a0 * a0 + a1 * a1 + a2 * a2 = 1"
  by (simp add: norm3_def)


lemma col_unit:
  fixes a b c s k :: real
  assumes "a * a + b * b + c * c = 1" and "s * s + k * k = 1"
  shows "(a * a * (1 - k) + k) * (a * a * (1 - k) + k)
           + (b * a * (1 - k) + c * s) * (b * a * (1 - k) + c * s)
           + (c * a * (1 - k) - b * s) * (c * a * (1 - k) - b * s) = 1"
    and "(a * b * (1 - k) - c * s) * (a * b * (1 - k) - c * s)
           + (b * b * (1 - k) + k) * (b * b * (1 - k) + k)
           + (c * b * (1 - k) + a * s) * (c * b * (1 - k) + a * s) = 1"
    and "(a * c * (1 - k) + b * s) * (a * c * (1 - k) + b * s)
           + (b * c * (1 - k) - a * s) * (b * c * (1 - k) - a * s)
           + (c * c * (1 - k) + k) * (c * c * (1 - k) + k) = 1"
  using assms by algebra+

lemma col_orth:
  fixes a b c s k :: real
  assumes "a * a + b * b + c * c = 1" and "s * s + k * k = 1"
  shows "(a * a * (1 - k) + k) * (a * b * (1 - k) - c * s)
           + (b * a * (1 - k) + c * s) * (b * b * (1 - k) + k)
           + (c * a * (1 - k) - b * s) * (c * b * (1 - k) + a * s) = 0"
    and "(a * a * (1 - k) + k) * (a * c * (1 - k) + b * s)
           + (b * a * (1 - k) + c * s) * (b * c * (1 - k) - a * s)
           + (c * a * (1 - k) - b * s) * (c * c * (1 - k) + k) = 0"
    and "(a * b * (1 - k) - c * s) * (a * c * (1 - k) + b * s)
           + (b * b * (1 - k) + k) * (b * c * (1 - k) - a * s)
           + (c * b * (1 - k) + a * s) * (c * c * (1 - k) + k) = 0"
  using assms by algebra+

text \<open>The rows of a rotation matrix, with s and k for the sine and cosine.\<close>

lemma row_unit:
  fixes a b c s k :: real
  assumes "a * a + b * b + c * c = 1" and "s * s + k * k = 1"
  shows "(a * a * (1 - k) + k) * (a * a * (1 - k) + k)
       + (a * b * (1 - k) - c * s) * (a * b * (1 - k) - c * s)
       + (a * c * (1 - k) + b * s) * (a * c * (1 - k) + b * s) = 1"
    and "(b * a * (1 - k) + c * s) * (b * a * (1 - k) + c * s)
       + (b * b * (1 - k) + k) * (b * b * (1 - k) + k)
       + (b * c * (1 - k) - a * s) * (b * c * (1 - k) - a * s) = 1"
    and "(c * a * (1 - k) - b * s) * (c * a * (1 - k) - b * s)
       + (c * b * (1 - k) + a * s) * (c * b * (1 - k) + a * s)
       + (c * c * (1 - k) + k) * (c * c * (1 - k) + k) = 1"
  using assms by algebra+

lemma row_orth:
  fixes a b c s k :: real
  assumes "a * a + b * b + c * c = 1" and "s * s + k * k = 1"
  shows "(a * a * (1 - k) + k) * (b * a * (1 - k) + c * s)
       + (a * b * (1 - k) - c * s) * (b * b * (1 - k) + k)
       + (a * c * (1 - k) + b * s) * (b * c * (1 - k) - a * s) = 0"
    and "(a * a * (1 - k) + k) * (c * a * (1 - k) - b * s)
       + (a * b * (1 - k) - c * s) * (c * b * (1 - k) + a * s)
       + (a * c * (1 - k) + b * s) * (c * c * (1 - k) + k) = 0"
    and "(b * a * (1 - k) + c * s) * (c * a * (1 - k) - b * s)
       + (b * b * (1 - k) + k) * (c * b * (1 - k) + a * s)
       + (b * c * (1 - k) - a * s) * (c * c * (1 - k) + k) = 0"
  using assms by algebra+

lemma rotation_orthonormal_rows:
  assumes "norm3 axis = 1"
  shows "mat3_mul (general_axis_rotation axis angle)
           (mat3_transpose (general_axis_rotation axis angle)) = eye3"
proof -
  obtain a b c where axis: "axis = (a, b, c)" by (cases axis) auto
  have u: "a * a + b * b + c * c = 1" using assms unfolding axis by (rule unit_axis_sq)
  have t: "sin angle * sin angle + cos angle * cos angle = 1"
    using sin_cos_squared_add [of angle] by (simp add: power2_eq_square)
  note r = row_unit [OF u t] row_orth [OF u t]
  show ?thesis
    unfolding axis rotation_entries mat3_mul_def eye3_def
    using r by (simp add: mult.commute add.commute)
qed

lemma sq_norm_expand:
  fixes m00 m01 m02 m10 m11 m12 m20 m21 m22 x y z :: real
  shows "(m00 * x + m01 * y + m02 * z) * (m00 * x + m01 * y + m02 * z)
       + (m10 * x + m11 * y + m12 * z) * (m10 * x + m11 * y + m12 * z)
       + (m20 * x + m21 * y + m22 * z) * (m20 * x + m21 * y + m22 * z)
       = x * x * (m00 * m00 + m10 * m10 + m20 * m20)
       + y * y * (m01 * m01 + m11 * m11 + m21 * m21)
       + z * z * (m02 * m02 + m12 * m12 + m22 * m22)
       + 2 * x * y * (m00 * m01 + m10 * m11 + m20 * m21)
       + 2 * x * z * (m00 * m02 + m10 * m12 + m20 * m22)
       + 2 * y * z * (m01 * m02 + m11 * m12 + m21 * m22)"
  by algebra

lemma orthonormal_columns_preserve_sq_norm:
  fixes m00 m01 m02 m10 m11 m12 m20 m21 m22 :: real
  assumes "m00 * m00 + m10 * m10 + m20 * m20 = 1"
    and "m01 * m01 + m11 * m11 + m21 * m21 = 1"
    and "m02 * m02 + m12 * m12 + m22 * m22 = 1"
    and "m00 * m01 + m10 * m11 + m20 * m21 = 0"
    and "m00 * m02 + m10 * m12 + m20 * m22 = 0"
    and "m01 * m02 + m11 * m12 + m21 * m22 = 0"
  shows "dot3 (mat3_vec ((m00, m01, m02), (m10, m11, m12), (m20, m21, m22)) (x, y, z))
              (mat3_vec ((m00, m01, m02), (m10, m11, m12), (m20, m21, m22)) (x, y, z))
         = dot3 (x, y, z) (x, y, z)"
proof -
  have "dot3 (mat3_vec ((m00, m01, m02), (m10, m11, m12), (m20, m21, m22)) (x, y, z))
              (mat3_vec ((m00, m01, m02), (m10, m11, m12), (m20, m21, m22)) (x, y, z))
       = x * x * (m00 * m00 + m10 * m10 + m20 * m20)
       + y * y * (m01 * m01 + m11 * m11 + m21 * m21)
       + z * z * (m02 * m02 + m12 * m12 + m22 * m22)
       + 2 * x * y * (m00 * m01 + m10 * m11 + m20 * m21)
       + 2 * x * z * (m00 * m02 + m10 * m12 + m20 * m22)
       + 2 * y * z * (m01 * m02 + m11 * m12 + m21 * m22)"
    by (simp only: mat3_vec.simps dot3.simps sq_norm_expand)
  also have "\<dots> = x * x + y * y + z * z"
    by (simp add: assms)
  finally show ?thesis by simp
qed

lemma rotation_preserves_norm:
  assumes "norm3 axis = 1"
  shows "norm3 (mat3_vec (general_axis_rotation axis angle) x) = norm3 x"
proof -
  obtain a b c where axis: "axis = (a, b, c)" by (cases axis) auto
  obtain x0 x1 x2 where x: "x = (x0, x1, x2)" by (cases x) auto
  have u: "a * a + b * b + c * c = 1" using assms unfolding axis by (rule unit_axis_sq)
  have t: "sin angle * sin angle + cos angle * cos angle = 1"
    using sin_cos_squared_add [of angle] by (simp add: power2_eq_square)
  have "dot3 (mat3_vec (general_axis_rotation axis angle) x)
             (mat3_vec (general_axis_rotation axis angle) x) = dot3 x x"
    unfolding axis x rotation_entries
    by (rule orthonormal_columns_preserve_sq_norm [OF col_unit [OF u t] col_orth [OF u t]])
  then show ?thesis by (simp add: norm3_def)
qed

lemma generate_transform_blocks:
  "rot_block (generate_transform axis angle t) = general_axis_rotation axis angle"
  "frame_col (generate_transform axis angle t) 3 = t"
  "nth4 (generate_transform axis angle t) 3 = (0, 0, 0, 1)"
proof -
  obtain r0 r1 r2 where r: "general_axis_rotation axis angle = (r0, r1, r2)"
    by (cases "general_axis_rotation axis angle")
  obtain a b c where r0: "r0 = (a, b, c)" by (cases r0)
  obtain d e f where r1: "r1 = (d, e, f)" by (cases r1)
  obtain g h i where r2: "r2 = (g, h, i)" by (cases r2)
  obtain t0 t1 t2 where t: "t = (t0, t1, t2)" by (cases t)
  have gt: "generate_transform axis angle (t0, t1, t2) =
      ((a, b, c, t0), (d, e, f, t1), (g, h, i, t2), (0, 0, 0, 1))"
    by (simp add: generate_transform_def r r0 r1 r2)
  show "rot_block (generate_transform axis angle t) = general_axis_rotation axis angle"
    unfolding t by (simp add: gt r r0 r1 r2 rot_block_def entry_def)
  show "frame_col (generate_transform axis angle t) 3 = t"
    unfolding t by (simp add: gt frame_col_def entry_def)
  show "nth4 (generate_transform axis angle t) 3 = (0, 0, 0, 1)"
    unfolding t by (simp add: gt)
qed

text \<open>
  Claim C9. For every unit axis and every angle, the rotation block \<open>R\<close> made by
  \<open>general_axis_rotation\<close> satisfies \<open>R R\<^sup>T = I\<close> and keeps the Euclidean norm of every
  vector, and \<open>generate_transform\<close> returns the 4-by-4 matrix with \<open>R\<close> as its upper left
  block, the translation as the top of its last column, and \<open>(0, 0, 0, 1)\<close> as its last
  row. Arithmetic is exact here.
\<close>

theorem rotation_is_orthonormal_and_transform_is_homogeneous:
  assumes "norm3 axis = 1"
  shows "mat3_mul (general_axis_rotation axis angle)
           (mat3_transpose (general_axis_rotation axis angle)) = eye3 \<and>
         (\<forall>x. norm3 (mat3_vec (general_axis_rotation axis angle) x) = norm3 x) \<and>
         rot_block (generate_transform axis angle translation) = general_axis_rotation axis angle \<and>
         frame_col (generate_transform axis angle translation) 3 = translation \<and>
         nth4 (generate_transform axis angle translation) 3 = (0, 0, 0, 1)"
  using rotation_orthonormal_rows [OF assms] rotation_preserves_norm [OF assms]
  by (simp add: generate_transform_blocks)

theorem rotation_is_orthonormal_and_transform_is_homogeneous_witness:
  "norm3 (0, 0, 1) = 1 \<and>
   general_axis_rotation (0, 0, 1) pi = ((- 1, 0, 0), (0, - 1, 0), (0, 0, 1)) \<and>
   mat3_mul (general_axis_rotation (0, 0, 1) pi)
     (mat3_transpose (general_axis_rotation (0, 0, 1) pi)) = eye3 \<and>
   norm3 (mat3_vec (general_axis_rotation (0, 0, 1) pi) (3, 4, 0)) = norm3 (3, 4, 0) \<and>
   generate_transform (0, 0, 1) pi (5, 6, 7)
     = ((- 1, 0, 0, 5), (0, - 1, 0, 6), (0, 0, 1, 7), (0, 0, 0, 1))"
proof -
  have n: "norm3 (0, 0, 1) = 1" by (simp add: norm3_def)
  have g: "general_axis_rotation (0, 0, 1) pi = ((- 1, 0, 0), (0, - 1, 0), (0, 0, 1))"
    by (simp add: rotation_entries)
  show ?thesis
    using rotation_is_orthonormal_and_transform_is_homogeneous [OF n, of pi "(5, 6, 7)"]
    by (simp add: g n generate_transform_def)
qed

section \<open>Construction of the plates\<close>

text \<open>
  Claim C8. Constructing a rectangular plate with a width or height that is not positive,
  or a round plate with a radius that is not positive, raises ValueError and yields no
  instance; with positive sizes the construction succeeds and stores the half-width and
  half-height, or the radius.
\<close>

theorem plate_construction_validates_size:
  "(width \<le> 0 \<or> height \<le> 0 \<longrightarrow> RectPlateGM_init width height = Inl ValueError) \<and>
   (0 < width \<and> 0 < height \<longrightarrow>
      (\<exists>g. RectPlateGM_init width height = Inr g \<and> gm_half_dims g = (width / 2, height / 2))) \<and>
   (radius \<le> 0 \<longrightarrow> RoundPlateGM_init radius = Inl ValueError) \<and>
   (0 < radius \<longrightarrow> (\<exists>g. RoundPlateGM_init radius = Inr g \<and> gm_R g = radius))"
  by (auto simp: RectPlateGM_init_def RoundPlateGM_init_def FiniteFlatGM.extend_def
      RectPlateGM.fields_def RoundPlateGM.fields_def FiniteFlatGM_init_def)

theorem plate_construction_validates_size_witness:
  "RectPlateGM_init 0 4 = Inl ValueError \<and> RectPlateGM_init 2 (- 1) = Inl ValueError \<and>
   RoundPlateGM_init 0 = Inl ValueError \<and>
   (\<exists>g. RectPlateGM_init 2 4 = Inr g \<and> gm_half_dims g = (2 / 2, 4 / 2)) \<and>
   (\<exists>g. RoundPlateGM_init 1 = Inr g \<and> gm_R g = 1)"
  using plate_construction_validates_size [of 0 4 0] plate_construction_validates_size [of 2 "- 1" 0]
    plate_construction_validates_size [of 2 4 1]
  by simp

section \<open>The inverse of a frame\<close>

text \<open>The matrix that \<open>linalg_inv\<close> returns is the inverse: the frame times it is the
  identity, entry by entry.\<close>

lemma cofactor_expansion:
  fixes a0 a1 a2 a3 b0 b1 b2 b3 c0 c1 c2 c3 d0 d1 d2 d3 :: real
  assumes m: "m = ((a0, a1, a2, a3), (b0, b1, b2, b3), (c0, c1, c2, c3), (d0, d1, d2, d3))"
    and "i < 4" and "j < 4"
  shows "entry m i 0 * cofactor m j 0 + entry m i 1 * cofactor m j 1
       + entry m i 2 * cofactor m j 2 + entry m i 3 * cofactor m j 3
       = (if i = j then det4 m else 0)"
proof -
  have i: "i = 0 \<or> i = 1 \<or> i = 2 \<or> i = 3" using assms(2) by auto
  have j: "j = 0 \<or> j = 1 \<or> j = 2 \<or> j = 3" using assms(3) by auto
  from i j show ?thesis
    unfolding m det4_def cofactor_def minor_def entry_def
    by (elim disjE) (simp_all add: algebra_simps)
qed

lemma linalg_inv_is_right_inverse:
  assumes "linalg_inv m = Inr k" and "i < 4" and "j < 4"
  shows "entry m i 0 * entry k 0 j + entry m i 1 * entry k 1 j
       + entry m i 2 * entry k 2 j + entry m i 3 * entry k 3 j = (if i = j then 1 else 0)"
proof -
  obtain r0 r1 r2 r3 where "m = (r0, r1, r2, r3)" by (cases m)
  moreover obtain a0 a1 a2 a3 where "r0 = (a0, a1, a2, a3)" by (cases r0)
  moreover obtain b0 b1 b2 b3 where "r1 = (b0, b1, b2, b3)" by (cases r1)
  moreover obtain c0 c1 c2 c3 where "r2 = (c0, c1, c2, c3)" by (cases r2)
  moreover obtain d0 d1 d2 d3 where "r3 = (d0, d1, d2, d3)" by (cases r3)
  ultimately have m: "m = ((a0, a1, a2, a3), (b0, b1, b2, b3), (c0, c1, c2, c3), (d0, d1, d2, d3))"
    by simp
  have d: "det4 m \<noteq> 0" and k: "k = mk4 (\<lambda>i. mk4 (\<lambda>j. cofactor m j i / det4 m))"
    using assms(1) by (auto simp: linalg_inv_def split: if_splits)
  have e: "entry k l j = cofactor m j l / det4 m" if "l < 4" for l
  proof -
    have "l = 0 \<or> l = 1 \<or> l = 2 \<or> l = 3" using that by auto
    moreover have "j = 0 \<or> j = 1 \<or> j = 2 \<or> j = 3" using assms(3) by auto
    ultimately show ?thesis
      unfolding k by (elim disjE) (simp_all add: entry_def mk4_def)
  qed
  have "entry m i 0 * entry k 0 j + entry m i 1 * entry k 1 j
       + entry m i 2 * entry k 2 j + entry m i 3 * entry k 3 j
       = (entry m i 0 * cofactor m j 0 + entry m i 1 * cofactor m j 1
       + entry m i 2 * cofactor m j 2 + entry m i 3 * cofactor m j 3) / det4 m"
    by (simp add: e add_divide_distrib)
  also have "\<dots> = (if i = j then det4 m else 0) / det4 m"
    by (simp only: cofactor_expansion [OF m assms(2,3)])
  also have "\<dots> = (if i = j then 1 else 0)"
    using d by simp
  finally show ?thesis .
qed

section \<open>Intersections with the plane\<close>

lemma put_mask_raw_compress:
  "length xs = length ms \<Longrightarrow> length ms = length ys \<Longrightarrow>
   put_mask_raw xs ms (map snd (filter fst (zip ms ys)))
     = map (\<lambda>(x, b, y). if b then y else x) (zip xs (zip ms ys))"
proof (induction xs ms ys rule: list_induct3)
  case Nil
  then show ?case by simp
next
  case (Cons x xs m ms y ys)
  then show ?case by (cases m) simp_all
qed

lemma compress_map:
  "map f (map snd (filter fst (zip ms xs))) = map snd (filter fst (zip ms (map f xs)))"
proof (induction ms arbitrary: xs)
  case Nil
  then show ?case by simp
next
  case (Cons m ms)
  then show ?case by (cases xs) simp_all
qed

lemma compress_zip:
  "length ms = length xs \<Longrightarrow> length xs = length ys \<Longrightarrow>
   zip (map snd (filter fst (zip ms xs))) (map snd (filter fst (zip ms ys)))
     = map snd (filter fst (zip ms (zip xs ys)))"
  by (induction ms xs ys rule: list_induct3) simp_all

lemma compress_length:
  "length ms = length xs \<Longrightarrow> length (filter fst (zip ms xs)) = length (filter id ms)"
  by (induction ms xs rule: list_induct2) simp_all

lemma masked_distance:
  assumes "length ds = length vs"
  shows "map (\<lambda>(x, m). if m then PInf else x)
     (zip (map (\<lambda>(x, b, y). if b then y else x)
             (zip (replicate (length vs) PInf)
                (zip (map (\<lambda>x. \<bar>x\<bar> > 1 / 10 ^ 10) (map (\<lambda>x. dot3 x (frame_col frame 2)) ds))
                   (map (\<lambda>(a, b). Fin (- a / b))
                      (zip (map (dot3 (frame_col frame 2)) (map (\<lambda>x. sub3 x (frame_col frame 3)) vs))
                           (map (\<lambda>x. dot3 x (frame_col frame 2)) ds))))))
          (map (\<lambda>p. fl_less p (Fin 0))
             (map (\<lambda>(x, b, y). if b then y else x)
             (zip (replicate (length vs) PInf)
                (zip (map (\<lambda>x. \<bar>x\<bar> > 1 / 10 ^ 10) (map (\<lambda>x. dot3 x (frame_col frame 2)) ds))
                   (map (\<lambda>(a, b). Fin (- a / b))
                      (zip (map (dot3 (frame_col frame 2)) (map (\<lambda>x. sub3 x (frame_col frame 3)) vs))
                           (map (\<lambda>x. dot3 x (frame_col frame 2)) ds))))))))
     = map (\<lambda>(v, d). ray_distance frame v d) (zip vs ds)"
  using assms
  by (intro nth_equalityI) (auto simp: ray_distance_def Let_def)

lemma compress_ok:
  "length ms = length xs \<Longrightarrow> compress ms xs = Inr (map snd (filter fst (zip ms xs)))"
  by (simp add: compress_def)

lemma put_mask_ok:
  "length ms = length xs \<Longrightarrow> length vals = length (filter id ms) \<Longrightarrow>
   put_mask xs ms vals = Inr (put_mask_raw xs ms vals)"
  by (simp add: put_mask_def)

lemma fill_mask_ok:
  "length ms = length xs \<Longrightarrow>
   fill_mask xs ms c = Inr (map (\<lambda>(x, m). if m then c else x) (zip xs ms))"
  by (simp add: fill_mask_def)

lemma bind_err_Inr: "bind_err (Inr x) f = f x"
  by (simp add: bind_err_def)

lemma bind_err_Inl: "bind_err (Inl e) f = Inl e"
  by (simp add: bind_err_def)

lemma flat_find_result:
  assumes v: "vertices b = Some vs" and d: "directions b = Some ds" and len: "length ds = length vs"
  shows "FlatGeometryManager_find_intersections self frame b =
     Inr (map (\<lambda>(v, d). ray_distance frame v d) (zip vs ds),
          self\<lparr>gm_working_frame := Some frame, gm_working_bundle := Some b,
               gm_params := Some (map (\<lambda>(v, d). ray_distance frame v d) (zip vs ds)),
               gm_backside := Some (BackMask (map (\<lambda>x. dot3 x (frame_col frame 2) > 0) ds))\<rparr>)"
proof -
  let ?dt = "map (\<lambda>x. dot3 x (frame_col frame 2)) ds"
  let ?un = "map (\<lambda>x. \<bar>x\<bar> > 1 / 10 ^ 10) ?dt"
  let ?vv = "map (\<lambda>x. sub3 x (frame_col frame 3)) vs"
  let ?vals = "map (\<lambda>(a, b). Fin (- a / b)) (zip (map (dot3 (frame_col frame 2)) ?vv) ?dt)"
  let ?ps = "map (\<lambda>(x, b, y). if b then y else x) (zip (replicate (length vs) PInf) (zip ?un ?vals))"
  have l: "length ?un = length ?vv" "length ?un = length ?dt" "length ?dt = length vs"
    "length ?vv = length ?dt" "length ?vals = length vs" "length ?un = length vs"
    by (simp_all add: len)
  have c1: "compress ?un ?vv = Inr (map snd (filter fst (zip ?un ?vv)))"
    by (rule compress_ok) (simp add: len)
  have c2: "compress ?un ?dt = Inr (map snd (filter fst (zip ?un ?dt)))"
    by (rule compress_ok) simp
  have vals: "map (\<lambda>(a, b). Fin (- a / b))
      (zip (map (dot3 (frame_col frame 2)) (map snd (filter fst (zip ?un ?vv))))
           (map snd (filter fst (zip ?un ?dt))))
      = map snd (filter fst (zip ?un ?vals))"
  proof -
    have a1: "map (dot3 (frame_col frame 2)) (map snd (filter fst (zip ?un ?vv)))
        = map snd (filter fst (zip ?un (map (dot3 (frame_col frame 2)) ?vv)))"
      by (rule compress_map)
    have a2: "zip (map snd (filter fst (zip ?un (map (dot3 (frame_col frame 2)) ?vv))))
                  (map snd (filter fst (zip ?un ?dt)))
        = map snd (filter fst (zip ?un (zip (map (dot3 (frame_col frame 2)) ?vv) ?dt)))"
      by (rule compress_zip) (simp_all add: len)
    have a3: "map (\<lambda>(a, b). Fin (- a / b))
          (map snd (filter fst (zip ?un (zip (map (dot3 (frame_col frame 2)) ?vv) ?dt))))
        = map snd (filter fst (zip ?un ?vals))"
      by (rule compress_map)
    show ?thesis by (simp only: a1 a2 a3)
  qed
  have p: "put_mask (replicate (length vs) PInf) ?un (map snd (filter fst (zip ?un ?vals))) = Inr ?ps"
  proof -
    have n: "length (map snd (filter fst (zip ?un ?vals))) = length (filter id ?un)"
      using compress_length [of ?un ?vals] l by simp
    have r: "put_mask_raw (replicate (length vs) PInf) ?un (map snd (filter fst (zip ?un ?vals))) = ?ps"
      by (rule put_mask_raw_compress) (simp_all add: len)
    have m: "length ?un = length (replicate (length vs) PInf)"
      by (simp add: len)
    show ?thesis
      using put_mask_ok [OF m n] by (simp only: r)
  qed
  have f: "fill_mask ?ps (map (\<lambda>p. fl_less p (Fin 0)) ?ps) PInf
      = Inr (map (\<lambda>(v, d). ray_distance frame v d) (zip vs ds))"
  proof -
    have m: "length (map (\<lambda>p. fl_less p (Fin 0)) ?ps) = length ?ps" by simp
    show ?thesis
      using fill_mask_ok [OF m, of PInf] by (simp only: masked_distance [OF len, of frame])
  qed
  show ?thesis
    unfolding FlatGeometryManager_find_intersections_def GeometryManager_find_intersections_def
      Let_def get_directions_def get_vertices_def get_num_rays_def getter_def v d
    by (simp only: option.case bind_err_Inr c1 c2 vals p f) simp
qed

text \<open>
  Claim C1. For a frame and a bundle with \<open>n\<close> vertices and \<open>n\<close> directions,
  \<open>FlatGeometryManager.find_intersections\<close> returns \<open>n\<close> distances. With
  \<open>dt = d \<cdot> normal\<close> and \<open>vt = normal \<cdot> (v - plane_point)\<close>, where the normal is column 2 and
  the plane point column 3 of the frame, a ray with \<open>|dt| \<le> 1e-10\<close> gets \<open>+inf\<close>, and
  every other ray gets \<open>-vt/dt\<close>, replaced by \<open>+inf\<close> when it is negative.
\<close>

theorem flat_find_intersections_distances:
  assumes "vertices b = Some vs" and "directions b = Some ds" and "length ds = length vs"
  shows "\<exists>ps self'. FlatGeometryManager_find_intersections self frame b = Inr (ps, self') \<and>
           length ps = length vs \<and>
           (\<forall>i<length vs. ps ! i =
              (let dt = dot3 (ds ! i) (frame_col frame 2);
                   vt = dot3 (frame_col frame 2) (sub3 (vs ! i) (frame_col frame 3))
               in if \<bar>dt\<bar> \<le> 1 / 10 ^ 10 then PInf
                  else if - vt / dt < 0 then PInf
                  else Fin (- vt / dt)))"
proof -
  have "\<forall>i<length vs. map (\<lambda>(v, d). ray_distance frame v d) (zip vs ds) ! i =
              (let dt = dot3 (ds ! i) (frame_col frame 2);
                   vt = dot3 (frame_col frame 2) (sub3 (vs ! i) (frame_col frame 3))
               in if \<bar>dt\<bar> \<le> 1 / 10 ^ 10 then PInf
                  else if - vt / dt < 0 then PInf
                  else Fin (- vt / dt))"
    using assms(3) by (simp add: ray_distance_def)
  moreover have "length (map (\<lambda>(v, d). ray_distance frame v d) (zip vs ds)) = length vs"
    using assms(3) by simp
  ultimately show ?thesis
    unfolding flat_find_result [OF assms] by blast
qed

theorem flat_find_intersections_distances_witness:
  "\<exists>ps self'. FlatGeometryManager_find_intersections FlatGeometryManager_init
       ((1, 0, 0, 0), (0, 1, 0, 0), (0, 0, 1, 0), (0, 0, 0, 1))
       \<lparr>vertices = Some [(0, 0, 1), (1, 0, 1), (2, 0, 1), (3, 0, 4)],
        directions = Some [(0, 0, - 1), (1, 0, 0), (0, 0, 1), (0, 0, - 2)],
        energy = None, parents = None, ref_index = None\<rparr> = Inr (ps, self') \<and>
     ps = [Fin 1, PInf, PInf, Fin 2]"
proof -
  let ?b = "\<lparr>vertices = Some [(0, 0, 1), (1, 0, 1), (2, 0, 1), (3, 0, 4)],
        directions = Some [(0, 0, - 1), (1, 0, 0), (0, 0, 1), (0, 0, - 2)],
        energy = None, parents = None, ref_index = None\<rparr>"
  let ?f = "((1, 0, 0, 0), (0, 1, 0, 0), (0, 0, 1, 0), (0, 0, 0, 1)) :: mat4"
  obtain ps self' where r: "FlatGeometryManager_find_intersections FlatGeometryManager_init ?f ?b
      = Inr (ps, self')" and n: "length ps = 4"
    and e: "\<forall>i<4. ps ! i =
              (let dt = dot3 ([(0, 0, - 1), (1, 0, 0), (0, 0, 1), (0, 0, - 2)] ! i) (frame_col ?f 2);
                   vt = dot3 (frame_col ?f 2)
                          (sub3 ([(0, 0, 1), (1, 0, 1), (2, 0, 1), (3, 0, 4)] ! i) (frame_col ?f 3))
               in if \<bar>dt\<bar> \<le> 1 / 10 ^ 10 then PInf
                  else if - vt / dt < 0 then PInf
                  else Fin (- vt / dt))"
    using flat_find_intersections_distances
      [of ?b "[(0, 0, 1), (1, 0, 1), (2, 0, 1), (3, 0, 4)]"
          "[(0, 0, - 1), (1, 0, 0), (0, 0, 1), (0, 0, - 2)]" FlatGeometryManager_init ?f]
    by auto
  have "ps ! 0 = Fin 1" "ps ! 1 = PInf" "ps ! 2 = PInf" "ps ! 3 = Fin 2"
    using e by (simp_all add: frame_col_def entry_def)
  then have "ps = [Fin 1, PInf, PInf, Fin 2]"
    using n by (intro nth_equalityI) (auto simp: less_Suc_eq numeral_eq_Suc)
  with r show ?thesis by blast
qed

section \<open>Normals at the selected rays\<close>

lemma foldl_update_nth:
  "i < length a \<Longrightarrow>
   foldl (\<lambda>a j. a[j := g j]) a js ! i = (if i \<in> set js then g i else a ! i)"
proof (induction js arbitrary: a)
  case Nil
  then show ?case by simp
next
  case (Cons j js)
  then show ?case by (cases "i = j") simp_all
qed

lemma foldl_update_length: "length (foldl (\<lambda>a j. a[j := g j]) a js) = length a"
  by (induction js arbitrary: a) simp_all

lemma nonzero_set: "set (nonzero sel) = {j. j < length sel \<and> sel ! j}"
  by (auto simp: nonzero_def)

lemma negate_cols_nonzero:
  assumes "length sel = k"
  shows "negate_cols (replicate k z) (BackIdx (nonzero sel))
         = Inr (map (\<lambda>b. if b then neg3 z else z) sel)"
proof -
  have inr: "\<not> list_ex (\<lambda>j. length (replicate k z) \<le> j) (nonzero sel)"
    using assms by (auto simp: list_ex_iff nonzero_set)
  have "foldl (\<lambda>a j. a[j := neg3 (replicate k z ! j)]) (replicate k z) (nonzero sel)
        = map (\<lambda>b. if b then neg3 z else z) sel"
  proof (rule nth_equalityI)
    show "length (foldl (\<lambda>a j. a[j := neg3 (replicate k z ! j)]) (replicate k z) (nonzero sel))
        = length (map (\<lambda>b. if b then neg3 z else z) sel)"
      using assms by (simp add: foldl_update_length)
  next
    fix i
    assume "i < length (foldl (\<lambda>a j. a[j := neg3 (replicate k z ! j)]) (replicate k z) (nonzero sel))"
    then have i: "i < k" by (simp add: foldl_update_length)
    then show "foldl (\<lambda>a j. a[j := neg3 (replicate k z ! j)]) (replicate k z) (nonzero sel) ! i
        = map (\<lambda>b. if b then neg3 z else z) sel ! i"
      using assms by (simp add: foldl_update_nth nonzero_set)
  qed
  with inr show ?thesis by simp
qed

lemma backside_select_mask:
  assumes "list_all (valid_index (length m)) idxs"
  shows "backside_select (BackMask m) idxs
         = Inr (nonzero (map (\<lambda>i. m ! wrap_index (length m) i) idxs))"
  by (simp add: np_take_valid [OF assms] bind_err_Inr)

lemma attr_Some: "attr (Some x) = Inr x"
  by (simp add: attr_def)

lemma flat_select_result:
  assumes "gm_backside s = Some (BackMask m)" and "gm_working_bundle s = Some b"
    and "vertices b = Some vs" and "directions b = Some ds" and "gm_params s = Some ps"
    and "length m = n" and "length vs = n" and "length ds = n" and "length ps = n"
    and "list_all (valid_index n) idxs"
  shows "FlatGeometryManager_select_rays s idxs =
     Inr (s\<lparr>gm_idxs := Some idxs,
             gm_backside := Some (BackIdx (nonzero (map (\<lambda>i. m ! wrap_index n i) idxs))),
             gm_params := None,
             gm_global := Some (hit_points (map (\<lambda>i. vs ! wrap_index n i) idxs)
                                  (map (\<lambda>i. ps ! wrap_index n i) idxs)
                                  (map (\<lambda>i. ds ! wrap_index n i) idxs))\<rparr>)"
proof -
  have t: "np_take vs idxs = Inr (map (\<lambda>i. vs ! wrap_index n i) idxs)"
    "np_take ds idxs = Inr (map (\<lambda>i. ds ! wrap_index n i) idxs)"
    "np_take ps idxs = Inr (map (\<lambda>i. ps ! wrap_index n i) idxs)"
    "np_take m idxs = Inr (map (\<lambda>i. m ! wrap_index n i) idxs)"
    using assms(6-10) np_take_valid [of vs idxs] np_take_valid [of ds idxs]
      np_take_valid [of ps idxs] np_take_valid [of m idxs] by simp_all
  show ?thesis
    unfolding FlatGeometryManager_select_rays_def Let_def
    by (simp add: assms(1-5) attr_Some bind_err_Inr get_vertices_def get_directions_def getter_def t)
qed

lemma flat_get_normals_result:
  assumes "gm_working_frame s = Some frame" and "gm_idxs s = Some idxs"
    and "gm_backside s = Some (BackIdx (nonzero sel))" and "length sel = length idxs"
  shows "FlatGeometryManager_get_normals s
         = Inr (map (\<lambda>b. if b then neg3 (frame_col frame 2) else frame_col frame 2) sel)"
  unfolding FlatGeometryManager_get_normals_def Let_def
  by (simp add: assms(1-3) attr_Some bind_err_Inr negate_cols_nonzero [OF assms(4)]
      del: negate_cols.simps)

text \<open>
  Claim C3. After \<open>find_intersections\<close> and \<open>select_rays(idxs)\<close> on a
  FlatGeometryManager, \<open>get_normals\<close> returns one column per selected ray: the local Z
  axis of the frame (column 2 of its rotation block) where the ray has \<open>dt \<le> 0\<close>, and the
  negated axis where the ray has \<open>dt > 0\<close>.
\<close>

theorem get_normals_faces_the_ray:
  assumes "vertices b = Some vs" and "directions b = Some ds" and "length ds = length vs"
    and "list_all (valid_index (length vs)) idxs"
  shows "\<exists>ps s1 s2 ns.
           FlatGeometryManager_find_intersections self frame b = Inr (ps, s1) \<and>
           FlatGeometryManager_select_rays s1 idxs = Inr s2 \<and>
           FlatGeometryManager_get_normals s2 = Inr ns \<and>
           length ns = length idxs \<and>
           (\<forall>j<length idxs. ns ! j =
              (if dot3 (ds ! wrap_index (length vs) (idxs ! j)) (frame_col frame 2) > 0
               then neg3 (frame_col frame 2) else frame_col frame 2))"
proof -
  let ?n = "length vs"
  let ?ps = "map (\<lambda>(v, d). ray_distance frame v d) (zip vs ds)"
  let ?m = "map (\<lambda>x. dot3 x (frame_col frame 2) > 0) ds"
  let ?s1 = "self\<lparr>gm_working_frame := Some frame, gm_working_bundle := Some b,
               gm_params := Some ?ps, gm_backside := Some (BackMask ?m)\<rparr>"
  let ?sel = "map (\<lambda>i. ?m ! wrap_index ?n i) idxs"
  let ?s2 = "?s1\<lparr>gm_idxs := Some idxs, gm_backside := Some (BackIdx (nonzero ?sel)),
             gm_params := None,
             gm_global := Some (hit_points (map (\<lambda>i. vs ! wrap_index ?n i) idxs)
                                  (map (\<lambda>i. ?ps ! wrap_index ?n i) idxs)
                                  (map (\<lambda>i. ds ! wrap_index ?n i) idxs))\<rparr>"
  let ?ns = "map (\<lambda>b. if b then neg3 (frame_col frame 2) else frame_col frame 2) ?sel"
  have find: "FlatGeometryManager_find_intersections self frame b = Inr (?ps, ?s1)"
    by (rule flat_find_result [OF assms(1-3)])
  have select: "FlatGeometryManager_select_rays ?s1 idxs = Inr ?s2"
    by (rule flat_select_result [where b = b and vs = vs and ds = ds and ps = ?ps])
       (simp_all add: assms)
  have normals: "FlatGeometryManager_get_normals ?s2 = Inr ?ns"
    by (rule flat_get_normals_result [where idxs = idxs]) simp_all
  have len: "length ?ns = length idxs" by simp
  have col: "?ns ! j =
      (if dot3 (ds ! wrap_index ?n (idxs ! j)) (frame_col frame 2) > 0
       then neg3 (frame_col frame 2) else frame_col frame 2)" if j: "j < length idxs" for j
  proof -
    have "valid_index ?n (idxs ! j)"
      using assms(4) j by (simp add: list_all_length)
    then have "wrap_index ?n (idxs ! j) < length ds"
      using wrap_index_less [of ?n "idxs ! j"] assms(3) by simp
    with j show ?thesis by simp
  qed
  from find select normals len col show ?thesis by blast
qed

theorem get_normals_faces_the_ray_witness:
  "\<exists>ps s1 s2.
     FlatGeometryManager_find_intersections FlatGeometryManager_init
       ((1, 0, 0, 0), (0, 1, 0, 0), (0, 0, 1, 0), (0, 0, 0, 1))
       \<lparr>vertices = Some [(0, 0, 1), (0, 0, - 1)], directions = Some [(0, 0, - 1), (0, 0, 1)],
        energy = None, parents = None, ref_index = None\<rparr> = Inr (ps, s1) \<and>
     FlatGeometryManager_select_rays s1 [1, 0, - 1] = Inr s2 \<and>
     FlatGeometryManager_get_normals s2 = Inr [(0, 0, - 1), (0, 0, 1), (0, 0, - 1)]"
proof -
  let ?b = "\<lparr>vertices = Some [(0, 0, 1), (0, 0, - 1)], directions = Some [(0, 0, - 1), (0, 0, 1)],
        energy = None, parents = None, ref_index = None\<rparr>"
  let ?f = "((1, 0, 0, 0), (0, 1, 0, 0), (0, 0, 1, 0), (0, 0, 0, 1)) :: mat4"
  let ?vs = "[(0, 0, 1), (0, 0, - 1)] :: vec3 list"
  let ?ds = "[(0, 0, - 1), (0, 0, 1)] :: vec3 list"
  let ?idxs = "[1, 0, - 1] :: int list"
  have a: "vertices ?b = Some ?vs" "directions ?b = Some ?ds" "length ?ds = length ?vs"
    "list_all (valid_index (length ?vs)) ?idxs"
    by (simp_all add: valid_index_def)
  obtain ps s1 s2 ns where r: "FlatGeometryManager_find_intersections FlatGeometryManager_init ?f ?b
      = Inr (ps, s1)" "FlatGeometryManager_select_rays s1 ?idxs = Inr s2"
      "FlatGeometryManager_get_normals s2 = Inr ns"
    and n: "length ns = length ?idxs"
    and e: "\<forall>j<length ?idxs. ns ! j =
              (if dot3 (?ds ! wrap_index (length ?vs) (?idxs ! j)) (frame_col ?f 2) > 0
               then neg3 (frame_col ?f 2) else frame_col ?f 2)"
    using get_normals_faces_the_ray [OF a, of FlatGeometryManager_init ?f] by blast
  have "ns ! 0 = (0, 0, - 1)" "ns ! 1 = (0, 0, 1)" "ns ! 2 = (0, 0, - 1)"
    using e by (simp_all add: frame_col_def entry_def wrap_index_def neg3_def)
  then have "ns = [(0, 0, - 1), (0, 0, 1), (0, 0, - 1)]"
    using n by (intro nth_equalityI) (auto simp: less_Suc_eq numeral_eq_Suc)
  with r show ?thesis by blast
qed

section \<open>The finite flat surface against the infinite one\<close>

lemma linalg_inv_regular:
  "det4 frame \<noteq> 0 \<Longrightarrow>
   linalg_inv frame = Inr (mk4 (\<lambda>i. mk4 (\<lambda>j. cofactor frame j i / det4 frame)))"
  by (simp add: linalg_inv_def)

lemma finite_find_result:
  assumes v: "vertices b = Some vs" and d: "directions b = Some ds" and len: "length ds = length vs"
    and inv: "linalg_inv frame = Inr inv_frame"
  shows "FiniteFlatGM_find_intersections self frame b =
     Inr (map (\<lambda>(v, d). ray_distance frame v d) (zip vs ds),
          self\<lparr>gm_working_frame := Some frame, gm_working_bundle := Some b,
               gm_params := None,
               gm_backside := Some (BackMask (map (\<lambda>x. dot3 x (frame_col frame 2) > 0) ds)),
               gm_global := Some (hit_points vs (map (\<lambda>(v, d). ray_distance frame v d) (zip vs ds)) ds),
               gm_local := Some (map (to_local inv_frame)
                  (hit_points vs (map (\<lambda>(v, d). ray_distance frame v d) (zip vs ds)) ds))\<rparr>)"
  unfolding FiniteFlatGM_find_intersections_def flat_find_result [OF v d len] Let_def
  by (simp add: bind_err_Inr attr_Some get_vertices_def get_directions_def getter_def v d inv)

lemma finite_select_result:
  assumes "gm_backside s = Some (BackMask m)" and "gm_global s = Some g"
    and "length m = n" and "length g = n" and "list_all (valid_index n) idxs"
  shows "FiniteFlatGM_select_rays s idxs =
     Inr (s\<lparr>gm_idxs := Some idxs,
             gm_backside := Some (BackIdx (nonzero (map (\<lambda>i. m ! wrap_index n i) idxs))),
             gm_global := Some (map (\<lambda>i. g ! wrap_index n i) idxs)\<rparr>)"
proof -
  have t: "np_take g idxs = Inr (map (\<lambda>i. g ! wrap_index n i) idxs)"
    "np_take m idxs = Inr (map (\<lambda>i. m ! wrap_index n i) idxs)"
    using assms(3-5) np_take_valid [of g idxs] np_take_valid [of m idxs] by simp_all
  show ?thesis
    unfolding FiniteFlatGM_select_rays_def Let_def
    by (simp add: assms(1,2) attr_Some bind_err_Inr t)
qed

lemma hit_points_take:
  assumes "length vs = n" and "length ps = n" and "length ds = n"
    and "list_all (valid_index n) idxs"
  shows "hit_points (map (\<lambda>i. vs ! wrap_index n i) idxs) (map (\<lambda>i. ps ! wrap_index n i) idxs)
           (map (\<lambda>i. ds ! wrap_index n i) idxs)
         = map (\<lambda>i. hit_points vs ps ds ! wrap_index n i) idxs"
proof (rule nth_equalityI)
  show "length (hit_points (map (\<lambda>i. vs ! wrap_index n i) idxs)
            (map (\<lambda>i. ps ! wrap_index n i) idxs) (map (\<lambda>i. ds ! wrap_index n i) idxs))
        = length (map (\<lambda>i. hit_points vs ps ds ! wrap_index n i) idxs)"
    by (simp add: hit_points_def)
next
  fix j
  assume "j < length (hit_points (map (\<lambda>i. vs ! wrap_index n i) idxs)
            (map (\<lambda>i. ps ! wrap_index n i) idxs) (map (\<lambda>i. ds ! wrap_index n i) idxs))"
  then have j: "j < length idxs" by (simp add: hit_points_def)
  then have "valid_index n (idxs ! j)"
    using assms(4) by (simp add: list_all_length)
  then have "wrap_index n (idxs ! j) < n" by (rule wrap_index_less)
  with j assms(1-3)
  show "hit_points (map (\<lambda>i. vs ! wrap_index n i) idxs) (map (\<lambda>i. ps ! wrap_index n i) idxs)
            (map (\<lambda>i. ds ! wrap_index n i) idxs) ! j
        = map (\<lambda>i. hit_points vs ps ds ! wrap_index n i) idxs ! j"
    by (simp add: hit_points_def)
qed

lemma hit_point_finite:
  "hit_point (v, Fin t, d) = fin3 (add3 v (scale3 t d))"
  by (cases v; cases d) simp

text \<open>
  Claim C4. For a frame that is an invertible matrix and a bundle,
  \<open>FiniteFlatGM.find_intersections\<close> returns the distances that
  \<open>FlatGeometryManager.find_intersections\<close> returns, and after \<open>select_rays(idxs)\<close> the
  global intersection points of the two classes are the same array; for a selected ray
  with a finite distance \<open>t\<close> the point is vertex + \<open>t\<close> times direction.
\<close>

theorem finite_flat_agrees_with_flat:
  assumes "vertices b = Some vs" and "directions b = Some ds" and "length ds = length vs"
    and "det4 frame \<noteq> 0" and "list_all (valid_index (length vs)) idxs"
  shows "\<exists>ps fs bs fs' bs' g.
           FiniteFlatGM_find_intersections self frame b = Inr (ps, fs) \<and>
           FlatGeometryManager_find_intersections self frame b = Inr (ps, bs) \<and>
           FiniteFlatGM_select_rays fs idxs = Inr fs' \<and>
           FlatGeometryManager_select_rays bs idxs = Inr bs' \<and>
           FlatGeometryManager_get_intersection_points_global fs' = Inr g \<and>
           FlatGeometryManager_get_intersection_points_global bs' = Inr g \<and>
           length g = length idxs \<and>
           (\<forall>j<length idxs. \<forall>t. ps ! wrap_index (length vs) (idxs ! j) = Fin t \<longrightarrow>
              g ! j = fin3 (add3 (vs ! wrap_index (length vs) (idxs ! j))
                             (scale3 t (ds ! wrap_index (length vs) (idxs ! j)))))"
proof -
  let ?n = "length vs"
  let ?ps = "map (\<lambda>(v, d). ray_distance frame v d) (zip vs ds)"
  let ?m = "map (\<lambda>x. dot3 x (frame_col frame 2) > 0) ds"
  let ?inv = "mk4 (\<lambda>i. mk4 (\<lambda>j. cofactor frame j i / det4 frame))"
  let ?fs = "self\<lparr>gm_working_frame := Some frame, gm_working_bundle := Some b,
               gm_params := None, gm_backside := Some (BackMask ?m),
               gm_global := Some (hit_points vs ?ps ds),
               gm_local := Some (map (to_local ?inv) (hit_points vs ?ps ds))\<rparr>"
  let ?bs = "self\<lparr>gm_working_frame := Some frame, gm_working_bundle := Some b,
               gm_params := Some ?ps, gm_backside := Some (BackMask ?m)\<rparr>"
  let ?sel = "map (\<lambda>i. ?m ! wrap_index ?n i) idxs"
  let ?g = "map (\<lambda>i. hit_points vs ?ps ds ! wrap_index ?n i) idxs"
  let ?fs' = "?fs\<lparr>gm_idxs := Some idxs, gm_backside := Some (BackIdx (nonzero ?sel)),
               gm_global := Some ?g\<rparr>"
  let ?bs' = "?bs\<lparr>gm_idxs := Some idxs, gm_backside := Some (BackIdx (nonzero ?sel)),
               gm_params := None, gm_global := Some ?g\<rparr>"
  have lens: "length ?ps = ?n" "length ?m = ?n" "length (hit_points vs ?ps ds) = ?n"
    using assms(3) by (simp_all add: hit_points_def)
  have ffind: "FiniteFlatGM_find_intersections self frame b = Inr (?ps, ?fs)"
    by (rule finite_find_result [OF assms(1-3) linalg_inv_regular [OF assms(4)]])
  have bfind: "FlatGeometryManager_find_intersections self frame b = Inr (?ps, ?bs)"
    by (rule flat_find_result [OF assms(1-3)])
  have fsel: "FiniteFlatGM_select_rays ?fs idxs = Inr ?fs'"
    by (rule finite_select_result [where m = ?m and g = "hit_points vs ?ps ds"])
       (simp_all add: hit_points_def assms(3,5))
  have "FlatGeometryManager_select_rays ?bs idxs =
     Inr (?bs\<lparr>gm_idxs := Some idxs, gm_backside := Some (BackIdx (nonzero ?sel)),
             gm_params := None,
             gm_global := Some (hit_points (map (\<lambda>i. vs ! wrap_index ?n i) idxs)
                                  (map (\<lambda>i. ?ps ! wrap_index ?n i) idxs)
                                  (map (\<lambda>i. ds ! wrap_index ?n i) idxs))\<rparr>)"
    by (rule flat_select_result [where b = b and vs = vs and ds = ds and ps = ?ps])
       (simp_all add: assms)
  then have bsel: "FlatGeometryManager_select_rays ?bs idxs = Inr ?bs'"
    by (simp only: hit_points_take [OF refl lens(1) assms(3) assms(5)])
  have fg: "FlatGeometryManager_get_intersection_points_global ?fs' = Inr ?g"
    by (simp add: FlatGeometryManager_get_intersection_points_global_def attr_Some)
  have bg: "FlatGeometryManager_get_intersection_points_global ?bs' = Inr ?g"
    by (simp add: FlatGeometryManager_get_intersection_points_global_def attr_Some)
  have len: "length ?g = length idxs" by simp
  have pt: "?g ! j = fin3 (add3 (vs ! wrap_index ?n (idxs ! j))
                             (scale3 t (ds ! wrap_index ?n (idxs ! j))))"
    if j: "j < length idxs" and t: "?ps ! wrap_index ?n (idxs ! j) = Fin t" for j t
  proof -
    have "valid_index ?n (idxs ! j)"
      using assms(5) j by (simp add: list_all_length)
    then have k: "wrap_index ?n (idxs ! j) < ?n" by (rule wrap_index_less)
    have "hit_points vs ?ps ds ! wrap_index ?n (idxs ! j)
        = hit_point (vs ! wrap_index ?n (idxs ! j), ?ps ! wrap_index ?n (idxs ! j),
                     ds ! wrap_index ?n (idxs ! j))"
      using k assms(3) by (simp add: hit_points_def)
    then show ?thesis
      using j by (simp only: t hit_point_finite nth_map)
  qed
  from ffind bfind fsel bsel fg bg len pt show ?thesis by blast
qed

theorem finite_flat_agrees_with_flat_witness:
  "\<exists>ps fs bs fs' bs'.
     FiniteFlatGM_find_intersections FiniteFlatGM_init
       ((1, 0, 0, 0), (0, 1, 0, 0), (0, 0, 1, 1), (0, 0, 0, 1))
       \<lparr>vertices = Some [(0, 0, 3), (1, 0, 3), (2, 0, 0)],
        directions = Some [(0, 0, - 1), (1, 0, 0), (0, 0, 2)],
        energy = None, parents = None, ref_index = None\<rparr> = Inr (ps, fs) \<and>
     FlatGeometryManager_find_intersections FiniteFlatGM_init
       ((1, 0, 0, 0), (0, 1, 0, 0), (0, 0, 1, 1), (0, 0, 0, 1))
       \<lparr>vertices = Some [(0, 0, 3), (1, 0, 3), (2, 0, 0)],
        directions = Some [(0, 0, - 1), (1, 0, 0), (0, 0, 2)],
        energy = None, parents = None, ref_index = None\<rparr> = Inr (ps, bs) \<and>
     ps = [Fin 2, PInf, Fin (1 / 2)] \<and>
     FiniteFlatGM_select_rays fs [2, 0] = Inr fs' \<and>
     FlatGeometryManager_select_rays bs [2, 0] = Inr bs' \<and>
     FlatGeometryManager_get_intersection_points_global fs'
       = Inr [(Fin 2, Fin 0, Fin 1), (Fin 0, Fin 0, Fin 1)] \<and>
     FlatGeometryManager_get_intersection_points_global bs'
       = Inr [(Fin 2, Fin 0, Fin 1), (Fin 0, Fin 0, Fin 1)]"
proof -
  let ?b = "\<lparr>vertices = Some [(0, 0, 3), (1, 0, 3), (2, 0, 0)],
        directions = Some [(0, 0, - 1), (1, 0, 0), (0, 0, 2)],
        energy = None, parents = None, ref_index = None\<rparr>"
  let ?f = "((1, 0, 0, 0), (0, 1, 0, 0), (0, 0, 1, 1), (0, 0, 0, 1)) :: mat4"
  let ?vs = "[(0, 0, 3), (1, 0, 3), (2, 0, 0)] :: vec3 list"
  let ?ds = "[(0, 0, - 1), (1, 0, 0), (0, 0, 2)] :: vec3 list"
  let ?idxs = "[2, 0] :: int list"
  have a: "vertices ?b = Some ?vs" "directions ?b = Some ?ds" "length ?ds = length ?vs"
    by simp_all
  have dt: "det4 ?f \<noteq> 0"
    by (simp add: det4_def cofactor_def minor_def entry_def)
  have ix: "list_all (valid_index (length ?vs)) ?idxs"
    by (simp add: valid_index_def)
  obtain ps fs bs fs' bs' g where
    r: "FiniteFlatGM_find_intersections FiniteFlatGM_init ?f ?b = Inr (ps, fs)"
       "FlatGeometryManager_find_intersections FiniteFlatGM_init ?f ?b = Inr (ps, bs)"
       "FiniteFlatGM_select_rays fs ?idxs = Inr fs'"
       "FlatGeometryManager_select_rays bs ?idxs = Inr bs'"
       "FlatGeometryManager_get_intersection_points_global fs' = Inr g"
       "FlatGeometryManager_get_intersection_points_global bs' = Inr g"
    and n: "length g = length ?idxs"
    and e: "\<forall>j<length ?idxs. \<forall>t. ps ! wrap_index (length ?vs) (?idxs ! j) = Fin t \<longrightarrow>
              g ! j = fin3 (add3 (?vs ! wrap_index (length ?vs) (?idxs ! j))
                             (scale3 t (?ds ! wrap_index (length ?vs) (?idxs ! j))))"
    using finite_flat_agrees_with_flat [OF a dt ix, of FiniteFlatGM_init] by blast
  have "ps = map (\<lambda>(v, d). ray_distance ?f v d) (zip ?vs ?ds)"
    using r(2) unfolding flat_find_result [OF a] by simp
  then have ps: "ps = [Fin 2, PInf, Fin (1 / 2)]"
    by (simp add: ray_distance_def frame_col_def entry_def)
  have "g ! 0 = (Fin 2, Fin 0, Fin 1)"
    using e [rule_format, of 0 "1 / 2"] by (simp add: ps wrap_index_def)
  moreover have "g ! 1 = (Fin 0, Fin 0, Fin 1)"
    using e [rule_format, of 1 2] by (simp add: ps wrap_index_def)
  ultimately have "g = [(Fin 2, Fin 0, Fin 1), (Fin 0, Fin 0, Fin 1)]"
    using n by (intro nth_equalityI) (auto simp: less_Suc_eq numeral_eq_Suc)
  with r ps show ?thesis by blast
qed

section \<open>Trimming by the plate\<close>

lemma fill_mask_nth:
  assumes "length ms = length xs" and "i < length xs"
  shows "map (\<lambda>(x, m). if m then c else x) (zip xs ms) ! i = (if ms ! i then c else xs ! i)"
  using assms by simp

lemma rect_find_result:
  assumes v: "vertices b = Some vs" and d: "directions b = Some ds" and len: "length ds = length vs"
    and inv: "linalg_inv frame = Inr inv_frame"
  shows "\<exists>s. RectPlateGM_find_intersections self frame b =
     Inr (map (\<lambda>(x, m). if m then PInf else x)
            (zip (map (\<lambda>(v, d). ray_distance frame v d) (zip vs ds))
               (map (outside_rect (gm_half_dims self))
                  (map (to_local inv_frame)
                     (hit_points vs (map (\<lambda>(v, d). ray_distance frame v d) (zip vs ds)) ds)))), s)"
proof -
  let ?ps = "map (\<lambda>(v, d). ray_distance frame v d) (zip vs ds)"
  let ?loc = "map (to_local inv_frame) (hit_points vs ?ps ds)"
  have m: "length (map (outside_rect (gm_half_dims self)) ?loc) = length ?ps"
    using len by (simp add: hit_points_def)
  show ?thesis
    unfolding RectPlateGM_find_intersections_def finite_find_result [OF v d len inv] Let_def
    using m by (simp add: bind_err_Inr attr_Some fill_mask_def)
qed

lemma round_find_result:
  assumes v: "vertices b = Some vs" and d: "directions b = Some ds" and len: "length ds = length vs"
    and inv: "linalg_inv frame = Inr inv_frame"
  shows "\<exists>s. RoundPlateGM_find_intersections self frame b =
     Inr (map (\<lambda>(x, m). if m then PInf else x)
            (zip (map (\<lambda>(v, d). ray_distance frame v d) (zip vs ds))
               (map (outside_round (gm_R self))
                  (map (to_local inv_frame)
                     (hit_points vs (map (\<lambda>(v, d). ray_distance frame v d) (zip vs ds)) ds)))), s)"
proof -
  let ?ps = "map (\<lambda>(v, d). ray_distance frame v d) (zip vs ds)"
  let ?loc = "map (to_local inv_frame) (hit_points vs ?ps ds)"
  have m: "length (map (outside_round (gm_R self)) ?loc) = length ?ps"
    using len by (simp add: hit_points_def)
  show ?thesis
    unfolding RoundPlateGM_find_intersections_def finite_find_result [OF v d len inv] Let_def
    using m by (simp add: bind_err_Inr attr_Some fill_mask_def)
qed

lemma outside_rect_finite:
  "outside_rect (hw, hh) (Fin x, Fin y, z, w) = (hw < \<bar>x\<bar> \<or> hh < \<bar>y\<bar>)"
  by (simp add: fl_greater_def)

lemma outside_round_finite:
  "outside_round r (Fin x, Fin y, z, w) = (r * r < x * x + y * y)"
  by (simp add: fl_greater_def)

lemma row_times_columns:
  fixes a0 a1 a2 a3 p0 p1 p2 p3 q0 q1 q2 q3 r0 r1 r2 r3 s0 s1 s2 s3 g0 g1 g2 h :: real
  assumes "a0 * p0 + a1 * q0 + a2 * r0 + a3 * s0 = e0"
    and "a0 * p1 + a1 * q1 + a2 * r1 + a3 * s1 = e1"
    and "a0 * p2 + a1 * q2 + a2 * r2 + a3 * s2 = e2"
    and "a0 * p3 + a1 * q3 + a2 * r3 + a3 * s3 = e3"
  shows "a0 * (p0 * g0 + p1 * g1 + p2 * g2 + p3 * h) + a1 * (q0 * g0 + q1 * g1 + q2 * g2 + q3 * h)
       + a2 * (r0 * g0 + r1 * g1 + r2 * g2 + r3 * h) + a3 * (s0 * g0 + s1 * g1 + s2 * g2 + s3 * h)
       = e0 * g0 + e1 * g1 + e2 * g2 + e3 * h"
  unfolding assms [symmetric] by (simp add: algebra_simps)

lemma to_local_finite_point:
  "to_local ((p0, p1, p2, p3), (q0, q1, q2, q3), (r0, r1, r2, r3), (s0, s1, s2, s3))
      (fin3 (g0, g1, g2))
   = (Fin (p0 * g0 + p1 * g1 + p2 * g2 + p3 * 1), Fin (q0 * g0 + q1 * g1 + q2 * g2 + q3 * 1),
      Fin (r0 * g0 + r1 * g1 + r2 * g2 + r3 * 1), Fin (s0 * g0 + s1 * g1 + s2 * g2 + s3 * 1))"
  by (simp add: Let_def)

lemma to_local_is_preimage:
  assumes inv: "linalg_inv frame = Inr k"
  shows "\<exists>x y z w. to_local k (fin3 g) = (Fin x, Fin y, Fin z, Fin w) \<and>
           mat4_vec frame (x, y, z, w) = homogeneous g"
proof -
  obtain fa fb fc fd where f0: "frame = (fa, fb, fc, fd)" by (cases frame)
  obtain a0 a1 a2 a3 where fa: "fa = (a0, a1, a2, a3)" by (cases fa)
  obtain b0 b1 b2 b3 where fb: "fb = (b0, b1, b2, b3)" by (cases fb)
  obtain c0 c1 c2 c3 where fc: "fc = (c0, c1, c2, c3)" by (cases fc)
  obtain d0 d1 d2 d3 where fd: "fd = (d0, d1, d2, d3)" by (cases fd)
  obtain kp kq kr ks where k0: "k = (kp, kq, kr, ks)" by (cases k)
  obtain p0 p1 p2 p3 where kp: "kp = (p0, p1, p2, p3)" by (cases kp)
  obtain q0 q1 q2 q3 where kq: "kq = (q0, q1, q2, q3)" by (cases kq)
  obtain r0 r1 r2 r3 where kr: "kr = (r0, r1, r2, r3)" by (cases kr)
  obtain s0 s1 s2 s3 where ks: "ks = (s0, s1, s2, s3)" by (cases ks)
  obtain g0 g1 g2 where g: "g = (g0, g1, g2)" by (cases g)
  note fr = f0 fa fb fc fd
  note kk = k0 kp kq kr ks
  note inv = inv [unfolded fr kk]
  have e00: "a0 * p0 + a1 * q0 + a2 * r0 + a3 * s0 = 1"
    using linalg_inv_is_right_inverse [OF inv, of 0 0] by (simp add: entry_def)
  have e01: "a0 * p1 + a1 * q1 + a2 * r1 + a3 * s1 = 0"
    using linalg_inv_is_right_inverse [OF inv, of 0 1] by (simp add: entry_def)
  have e02: "a0 * p2 + a1 * q2 + a2 * r2 + a3 * s2 = 0"
    using linalg_inv_is_right_inverse [OF inv, of 0 2] by (simp add: entry_def)
  have e03: "a0 * p3 + a1 * q3 + a2 * r3 + a3 * s3 = 0"
    using linalg_inv_is_right_inverse [OF inv, of 0 3] by (simp add: entry_def)
  have e10: "b0 * p0 + b1 * q0 + b2 * r0 + b3 * s0 = 0"
    using linalg_inv_is_right_inverse [OF inv, of 1 0] by (simp add: entry_def)
  have e11: "b0 * p1 + b1 * q1 + b2 * r1 + b3 * s1 = 1"
    using linalg_inv_is_right_inverse [OF inv, of 1 1] by (simp add: entry_def)
  have e12: "b0 * p2 + b1 * q2 + b2 * r2 + b3 * s2 = 0"
    using linalg_inv_is_right_inverse [OF inv, of 1 2] by (simp add: entry_def)
  have e13: "b0 * p3 + b1 * q3 + b2 * r3 + b3 * s3 = 0"
    using linalg_inv_is_right_inverse [OF inv, of 1 3] by (simp add: entry_def)
  have e20: "c0 * p0 + c1 * q0 + c2 * r0 + c3 * s0 = 0"
    using linalg_inv_is_right_inverse [OF inv, of 2 0] by (simp add: entry_def)
  have e21: "c0 * p1 + c1 * q1 + c2 * r1 + c3 * s1 = 0"
    using linalg_inv_is_right_inverse [OF inv, of 2 1] by (simp add: entry_def)
  have e22: "c0 * p2 + c1 * q2 + c2 * r2 + c3 * s2 = 1"
    using linalg_inv_is_right_inverse [OF inv, of 2 2] by (simp add: entry_def)
  have e23: "c0 * p3 + c1 * q3 + c2 * r3 + c3 * s3 = 0"
    using linalg_inv_is_right_inverse [OF inv, of 2 3] by (simp add: entry_def)
  have e30: "d0 * p0 + d1 * q0 + d2 * r0 + d3 * s0 = 0"
    using linalg_inv_is_right_inverse [OF inv, of 3 0] by (simp add: entry_def)
  have e31: "d0 * p1 + d1 * q1 + d2 * r1 + d3 * s1 = 0"
    using linalg_inv_is_right_inverse [OF inv, of 3 1] by (simp add: entry_def)
  have e32: "d0 * p2 + d1 * q2 + d2 * r2 + d3 * s2 = 0"
    using linalg_inv_is_right_inverse [OF inv, of 3 2] by (simp add: entry_def)
  have e33: "d0 * p3 + d1 * q3 + d2 * r3 + d3 * s3 = 1"
    using linalg_inv_is_right_inverse [OF inv, of 3 3] by (simp add: entry_def)
  have loc: "to_local k (fin3 g)
      = (Fin (p0 * g0 + p1 * g1 + p2 * g2 + p3 * 1), Fin (q0 * g0 + q1 * g1 + q2 * g2 + q3 * 1),
         Fin (r0 * g0 + r1 * g1 + r2 * g2 + r3 * 1), Fin (s0 * g0 + s1 * g1 + s2 * g2 + s3 * 1))"
    unfolding kk g by (rule to_local_finite_point)
  have "mat4_vec frame (p0 * g0 + p1 * g1 + p2 * g2 + p3 * 1, q0 * g0 + q1 * g1 + q2 * g2 + q3 * 1,
         r0 * g0 + r1 * g1 + r2 * g2 + r3 * 1, s0 * g0 + s1 * g1 + s2 * g2 + s3 * 1)
      = homogeneous g"
    unfolding fr g
    using row_times_columns [OF e00 e01 e02 e03, of g0 g1 g2 1]
      row_times_columns [OF e10 e11 e12 e13, of g0 g1 g2 1]
      row_times_columns [OF e20 e21 e22 e23, of g0 g1 g2 1]
      row_times_columns [OF e30 e31 e32 e33, of g0 g1 g2 1]
    by simp
  with loc show ?thesis by blast
qed

text \<open>
  Claim C2. After the finite-flat computation, \<open>RectPlateGM.find_intersections\<close> returns
  \<open>+inf\<close> for every ray whose local X or Y coordinate exceeds the half-width or
  half-height in absolute value, and \<open>RoundPlateGM.find_intersections\<close> returns \<open>+inf\<close>
  for every ray whose local \<open>x\<^sup>2 + y\<^sup>2\<close> exceeds \<open>R\<^sup>2\<close>; every other entry is the
  finite-flat distance. The local coordinates of a ray with a finite distance \<open>t\<close> are
  finite, and they are the coordinates in the frame of the point vertex + \<open>t\<close> times
  direction: the frame applied to them gives that point. The comparisons are strict, so
  a ray on the boundary is kept, and a comparison with a \<open>nan\<close> coordinate is false.
\<close>

theorem plates_discard_rays_outside:
  assumes "vertices b = Some vs" and "directions b = Some ds" and "length ds = length vs"
    and "det4 frame \<noteq> 0"
  shows "\<exists>ps loc.
     length ps = length vs \<and> length loc = length vs \<and>
     (\<exists>fs. FiniteFlatGM_find_intersections plate frame b = Inr (ps, fs) \<and> gm_local fs = Some loc) \<and>
     (\<exists>fs. FiniteFlatGM_find_intersections disk frame b = Inr (ps, fs) \<and> gm_local fs = Some loc) \<and>
     (\<exists>rs s. RectPlateGM_find_intersections plate frame b = Inr (rs, s) \<and> length rs = length vs \<and>
        (\<forall>i<length vs. rs ! i =
           (if outside_rect (gm_half_dims plate) (loc ! i) then PInf else ps ! i))) \<and>
     (\<exists>rs s. RoundPlateGM_find_intersections disk frame b = Inr (rs, s) \<and> length rs = length vs \<and>
        (\<forall>i<length vs. rs ! i =
           (if outside_round (gm_R disk) (loc ! i) then PInf else ps ! i))) \<and>
     (\<forall>i<length vs. ps ! i = ray_distance frame (vs ! i) (ds ! i)) \<and>
     (\<forall>i<length vs. \<forall>t. ps ! i = Fin t \<longrightarrow>
        (\<exists>x y z w. loc ! i = (Fin x, Fin y, Fin z, Fin w) \<and>
           mat4_vec frame (x, y, z, w) = homogeneous (add3 (vs ! i) (scale3 t (ds ! i))))) \<and>
     (\<forall>hw hh x y z w. outside_rect (hw, hh) (Fin x, Fin y, z, w) = (hw < \<bar>x\<bar> \<or> hh < \<bar>y\<bar>)) \<and>
     (\<forall>r x y z w. outside_round r (Fin x, Fin y, z, w) = (r * r < x * x + y * y))"
proof -
  let ?ps = "map (\<lambda>(v, d). ray_distance frame v d) (zip vs ds)"
  let ?inv = "mk4 (\<lambda>i. mk4 (\<lambda>j. cofactor frame j i / det4 frame))"
  let ?loc = "map (to_local ?inv) (hit_points vs ?ps ds)"
  note inv = linalg_inv_regular [OF assms(4)]
  have lp: "length ?ps = length vs" and ll: "length ?loc = length vs"
    using assms(3) by (simp_all add: hit_points_def)
  have f1: "\<exists>fs. FiniteFlatGM_find_intersections plate frame b = Inr (?ps, fs) \<and> gm_local fs = Some ?loc"
    unfolding finite_find_result [OF assms(1-3) inv] by simp
  have f2: "\<exists>fs. FiniteFlatGM_find_intersections disk frame b = Inr (?ps, fs) \<and> gm_local fs = Some ?loc"
    unfolding finite_find_result [OF assms(1-3) inv] by simp
  obtain s1 where r1: "RectPlateGM_find_intersections plate frame b =
      Inr (map (\<lambda>(x, m). if m then PInf else x)
             (zip ?ps (map (outside_rect (gm_half_dims plate)) ?loc)), s1)"
    using rect_find_result [OF assms(1-3) inv, of plate] by blast
  obtain s2 where r2: "RoundPlateGM_find_intersections disk frame b =
      Inr (map (\<lambda>(x, m). if m then PInf else x)
             (zip ?ps (map (outside_round (gm_R disk)) ?loc)), s2)"
    using round_find_result [OF assms(1-3) inv, of disk] by blast
  have e1: "\<forall>i<length vs. map (\<lambda>(x, m). if m then PInf else x)
             (zip ?ps (map (outside_rect (gm_half_dims plate)) ?loc)) ! i =
           (if outside_rect (gm_half_dims plate) (?loc ! i) then PInf else ?ps ! i)"
    using assms(3) by (simp add: hit_points_def)
  have e2: "\<forall>i<length vs. map (\<lambda>(x, m). if m then PInf else x)
             (zip ?ps (map (outside_round (gm_R disk)) ?loc)) ! i =
           (if outside_round (gm_R disk) (?loc ! i) then PInf else ?ps ! i)"
    using assms(3) by (simp add: hit_points_def)
  have n1: "length (map (\<lambda>(x, m). if m then PInf else x)
             (zip ?ps (map (outside_rect (gm_half_dims plate)) ?loc))) = length vs"
    using assms(3) by (simp add: hit_points_def)
  have n2: "length (map (\<lambda>(x, m). if m then PInf else x)
             (zip ?ps (map (outside_round (gm_R disk)) ?loc))) = length vs"
    using assms(3) by (simp add: hit_points_def)
  have fin: "\<exists>x y z w. ?loc ! i = (Fin x, Fin y, Fin z, Fin w) \<and>
           mat4_vec frame (x, y, z, w) = homogeneous (add3 (vs ! i) (scale3 t (ds ! i)))"
    if i: "i < length vs" and t: "?ps ! i = Fin t" for i t
  proof -
    have "hit_points vs ?ps ds ! i = hit_point (vs ! i, ?ps ! i, ds ! i)"
      using i assms(3) by (simp add: hit_points_def)
    then have l: "?loc ! i = to_local ?inv (fin3 (add3 (vs ! i) (scale3 t (ds ! i))))"
      using i assms(3) by (simp only: t hit_point_finite nth_map length_map hit_points_def
          length_zip min.idem)
    show ?thesis unfolding l by (rule to_local_is_preimage [OF inv])
  qed
  have g1: "\<exists>rs s. RectPlateGM_find_intersections plate frame b = Inr (rs, s) \<and> length rs = length vs \<and>
        (\<forall>i<length vs. rs ! i =
           (if outside_rect (gm_half_dims plate) (?loc ! i) then PInf else ?ps ! i))"
    using r1 n1 e1 by blast
  have g2: "\<exists>rs s. RoundPlateGM_find_intersections disk frame b = Inr (rs, s) \<and> length rs = length vs \<and>
        (\<forall>i<length vs. rs ! i =
           (if outside_round (gm_R disk) (?loc ! i) then PInf else ?ps ! i))"
    using r2 n2 e2 by blast
  have g3: "\<forall>i<length vs. \<forall>t. ?ps ! i = Fin t \<longrightarrow>
        (\<exists>x y z w. ?loc ! i = (Fin x, Fin y, Fin z, Fin w) \<and>
           mat4_vec frame (x, y, z, w) = homogeneous (add3 (vs ! i) (scale3 t (ds ! i))))"
    using fin by blast
  have g0: "\<forall>i<length vs. ?ps ! i = ray_distance frame (vs ! i) (ds ! i)"
    using assms(3) by simp
  have g4: "\<forall>hw hh x y z w. outside_rect (hw, hh) (Fin x, Fin y, z, w) = (hw < \<bar>x\<bar> \<or> hh < \<bar>y\<bar>)"
    using outside_rect_finite by blast
  have g5: "\<forall>r x y z w. outside_round r (Fin x, Fin y, z, w) = (r * r < x * x + y * y)"
    using outside_round_finite by blast
  show ?thesis
    apply (rule exI [of _ ?ps])
    apply (rule exI [of _ ?loc])
    apply (intro conjI)
            apply (rule lp)
           apply (rule ll)
          apply (rule f1)
         apply (rule f2)
        apply (rule g1)
        apply (rule g2)
       apply (rule g0)
      apply (rule g3)
     apply (rule g4)
    apply (rule g5)
    done
qed

lemma list_eq_by_nth:
  "length xs = n \<Longrightarrow> \<forall>i<n. xs ! i = f i \<Longrightarrow> xs = map f [0..<n]"
  by (auto intro!: nth_equalityI)

theorem plates_discard_rays_outside_witness:
  "\<exists>plate disk ps fs rs s rs' s'.
     RectPlateGM_init 2 4 = Inr plate \<and> RoundPlateGM_init 1 = Inr disk \<and>
     FiniteFlatGM_find_intersections plate
       ((0, - 1, 0, 1), (1, 0, 0, 2), (0, 0, 1, 3), (0, 0, 0, 1))
       \<lparr>vertices = Some [(1, 7 / 2, 4), (- 1, 3, 4), (2 / 5, 13 / 5, 4), (1, 3, 4), (0, 0, 4)],
        directions = Some [(0, 0, - 1), (0, 0, - 1), (0, 0, - 1), (0, 0, - 1), (1, 0, 0)],
        energy = None, parents = None, ref_index = None\<rparr> = Inr (ps, fs) \<and>
     ps = [Fin 1, Fin 1, Fin 1, Fin 1, PInf] \<and>
     gm_local fs = Some [(Fin (3 / 2), Fin 0, Fin 0, Fin 1), (Fin 1, Fin 2, Fin 0, Fin 1),
       (Fin (3 / 5), Fin (3 / 5), Fin 0, Fin 1), (Fin 1, Fin 0, Fin 0, Fin 1),
       (NaN, NaN, NaN, NaN)] \<and>
     mat4_vec ((0, - 1, 0, 1), (1, 0, 0, 2), (0, 0, 1, 3), (0, 0, 0, 1)) (3 / 5, 3 / 5, 0, 1)
       = homogeneous (add3 (2 / 5, 13 / 5, 4) (scale3 1 (0, 0, - 1))) \<and>
     RectPlateGM_find_intersections plate
       ((0, - 1, 0, 1), (1, 0, 0, 2), (0, 0, 1, 3), (0, 0, 0, 1))
       \<lparr>vertices = Some [(1, 7 / 2, 4), (- 1, 3, 4), (2 / 5, 13 / 5, 4), (1, 3, 4), (0, 0, 4)],
        directions = Some [(0, 0, - 1), (0, 0, - 1), (0, 0, - 1), (0, 0, - 1), (1, 0, 0)],
        energy = None, parents = None, ref_index = None\<rparr> = Inr (rs, s) \<and>
     rs = [PInf, Fin 1, Fin 1, Fin 1, PInf] \<and>
     RoundPlateGM_find_intersections disk
       ((0, - 1, 0, 1), (1, 0, 0, 2), (0, 0, 1, 3), (0, 0, 0, 1))
       \<lparr>vertices = Some [(1, 7 / 2, 4), (- 1, 3, 4), (2 / 5, 13 / 5, 4), (1, 3, 4), (0, 0, 4)],
        directions = Some [(0, 0, - 1), (0, 0, - 1), (0, 0, - 1), (0, 0, - 1), (1, 0, 0)],
        energy = None, parents = None, ref_index = None\<rparr> = Inr (rs', s') \<and>
     rs' = [PInf, PInf, Fin 1, Fin 1, PInf]"
proof -
  let ?vs = "[(1, 7 / 2, 4), (- 1, 3, 4), (2 / 5, 13 / 5, 4), (1, 3, 4), (0, 0, 4)] :: vec3 list"
  let ?ds = "[(0, 0, - 1), (0, 0, - 1), (0, 0, - 1), (0, 0, - 1), (1, 0, 0)] :: vec3 list"
  let ?b = "\<lparr>vertices = Some ?vs, directions = Some ?ds,
        energy = None, parents = None, ref_index = None\<rparr>"
  let ?f = "((0, - 1, 0, 1), (1, 0, 0, 2), (0, 0, 1, 3), (0, 0, 0, 1)) :: mat4"
  let ?k = "((0, 1, 0, - 2), (- 1, 0, 0, 1), (0, 0, 1, - 3), (0, 0, 0, 1)) :: mat4"
  let ?plate = "FiniteFlatGM.extend FiniteFlatGM_init (RectPlateGM.fields (2 / 2, 4 / 2))"
  let ?disk = "FiniteFlatGM.extend FiniteFlatGM_init (RoundPlateGM.fields 1)"
  have i1: "RectPlateGM_init 2 4 = Inr ?plate" by (simp add: RectPlateGM_init_def)
  have i2: "RoundPlateGM_init 1 = Inr ?disk" by (simp add: RoundPlateGM_init_def)
  have hd: "gm_half_dims ?plate = (1, 2)"
    by (simp add: FiniteFlatGM.extend_def RectPlateGM.fields_def FiniteFlatGM_init_def)
  have rr: "gm_R ?disk = 1"
    by (simp add: FiniteFlatGM.extend_def RoundPlateGM.fields_def FiniteFlatGM_init_def)
  have a: "vertices ?b = Some ?vs" "directions ?b = Some ?ds" "length ?ds = length ?vs"
    by simp_all
  have dt: "det4 ?f \<noteq> 0"
    by (simp add: det4_def cofactor_def minor_def entry_def)
  have inv: "linalg_inv ?f = Inr ?k"
    by (simp add: linalg_inv_def det4_def cofactor_def minor_def entry_def mk4_def)
  obtain ps loc fs rs s rs' s' where
    f: "FiniteFlatGM_find_intersections ?plate ?f ?b = Inr (ps, fs)" "gm_local fs = Some loc"
    and r: "RectPlateGM_find_intersections ?plate ?f ?b = Inr (rs, s)"
    and n: "length rs = length ?vs"
    and e: "\<forall>i<length ?vs. rs ! i =
           (if outside_rect (gm_half_dims ?plate) (loc ! i) then PInf else ps ! i)"
    and r': "RoundPlateGM_find_intersections ?disk ?f ?b = Inr (rs', s')"
    and n': "length rs' = length ?vs"
    and e': "\<forall>i<length ?vs. rs' ! i =
           (if outside_round (gm_R ?disk) (loc ! i) then PInf else ps ! i)"
    using plates_discard_rays_outside [OF a dt, of ?plate ?disk]
    by (elim exE conjE) (rule that; assumption)
  let ?PS = "map (\<lambda>(v, d). ray_distance ?f v d) (zip ?vs ?ds)"
  let ?LOC = "map (to_local ?k) (hit_points ?vs ?PS ?ds)"
  let ?FS = "?plate\<lparr>gm_working_frame := Some ?f, gm_working_bundle := Some ?b,
               gm_params := None,
               gm_backside := Some (BackMask (map (\<lambda>x. dot3 x (frame_col ?f 2) > 0) ?ds)),
               gm_global := Some (hit_points ?vs ?PS ?ds),
               gm_local := Some ?LOC\<rparr>"
  have ff: "FiniteFlatGM_find_intersections ?plate ?f ?b = Inr (?PS, ?FS)"
    by (rule finite_find_result [OF a inv])
  note eq = trans [OF f(1) [symmetric] ff, unfolded sum.inject prod.inject]
  have ps0: "ps = ?PS" by (rule conjunct1 [OF eq])
  have fs0: "fs = ?FS" by (rule conjunct2 [OF eq])
  have gl: "gm_local ?FS = Some ?LOC" by simp
  have loc0: "loc = ?LOC"
    using f(2) unfolding fs0 gl by simp
  have ps: "ps = [Fin 1, Fin 1, Fin 1, Fin 1, PInf]"
    unfolding ps0 by (simp add: ray_distance_def frame_col_def entry_def)
  have loc: "loc = [(Fin (3 / 2), Fin 0, Fin 0, Fin 1), (Fin 1, Fin 2, Fin 0, Fin 1),
      (Fin (3 / 5), Fin (3 / 5), Fin 0, Fin 1), (Fin 1, Fin 0, Fin 0, Fin 1),
      (NaN, NaN, NaN, NaN)]"
    unfolding loc0 ps0 by (simp add: ray_distance_def frame_col_def entry_def hit_points_def)
  have w: "mat4_vec ?f (3 / 5, 3 / 5, 0, 1)
       = homogeneous (add3 (2 / 5, 13 / 5, 4) (scale3 1 (0, 0, - 1)))"
    by simp
  have "rs = map (\<lambda>i. if outside_rect (1, 2) (loc ! i) then PInf else ps ! i) [0..<length ?vs]"
    by (rule list_eq_by_nth [OF n e [unfolded hd]])
  then have rs: "rs = [PInf, Fin 1, Fin 1, Fin 1, PInf]"
    by (simp add: ps loc upt_rec fl_greater_def)
  have "rs' = map (\<lambda>i. if outside_round 1 (loc ! i) then PInf else ps ! i) [0..<length ?vs]"
    by (rule list_eq_by_nth [OF n' e' [unfolded rr]])
  then have rs': "rs' = [PInf, PInf, Fin 1, Fin 1, PInf]"
    by (simp add: ps loc upt_rec fl_greater_def)
  from i1 i2 f(1) ps f(2) [unfolded loc] w r rs r' rs' show ?thesis by blast
qed

end
